theory Spec2Isabelle
  imports Complex_Main
begin

section \<open>Python values, exceptions and tensors\<close>

text \<open>
  The layers of \<^verbatim>\<open>deepctr/sequence.py\<close> are Keras layers over TensorFlow tensors.
  Constructor arguments are arbitrary Python values; the ones the module handles are
  strings, booleans, numbers, \<^verbatim>\<open>None\<close> and tuples.
\<close>

datatype pyval =
    PNone
  | PBool bool
  | PInt int
  | PFloat real
  | PStr string
  | PTuple "pyval list"

text \<open>
  The exceptions the module can end in. \<^verbatim>\<open>ValueError\<close> carries its message.
  \<open>InvalidArgumentError\<close> is TensorFlow's error for operands whose shapes do not fit.
  \<open>NotFinite\<close> is not an exception: tensor entries are modelled as real numbers (finite
  values, exact arithmetic), and \<open>NotFinite\<close> marks a result in which the floating-point
  computation would hold an infinity or a NaN produced from finite operands (a division by
  zero, a maximum over an empty axis), which no real number represents.
\<close>

datatype error =
    ValueError string
  | TypeError
  | IndexError
  | AttributeError
  | NameError string
  | UnboundLocalError string
  | InvalidArgumentError
  | NotFinite

text \<open>
  A tensor is its shape together with its entries, read by index. Only the entries at
  indices inside the shape are meaningful. Rank-2 and rank-3 tensors are the ones the
  module handles.
\<close>

datatype 'a tensor2 = Tensor2 (n0: nat) (n1: nat) (el2: "nat \<Rightarrow> nat \<Rightarrow> 'a")

datatype 'a tensor3 = Tensor3 (d0: nat) (d1: nat) (d2: nat) (el3: "nat \<Rightarrow> nat \<Rightarrow> nat \<Rightarrow> 'a")

definition shape2 :: "'a tensor2 \<Rightarrow> nat list" where
  "shape2 x = [n0 x, n1 x]"

definition shape3 :: "'a tensor3 \<Rightarrow> nat list" where
  "shape3 x = [d0 x, d1 x, d2 x]"

text \<open>Tensors written out as nested lists, for concrete inputs.\<close>

definition of_rows2 :: "nat \<Rightarrow> 'a list list \<Rightarrow> 'a tensor2" where
  "of_rows2 c xs = Tensor2 (length xs) c (\<lambda>i j. xs ! i ! j)"

definition of_rows3 :: "nat \<Rightarrow> nat \<Rightarrow> 'a list list list \<Rightarrow> 'a tensor3" where
  "of_rows3 t e xs = Tensor3 (length xs) t e (\<lambda>b i j. xs ! b ! i ! j)"

subsection \<open>Sequencing of fallible steps\<close>

definition bind :: "error + 'a \<Rightarrow> ('a \<Rightarrow> error + 'b) \<Rightarrow> error + 'b" where
  "bind r f = (case r of Inl e \<Rightarrow> Inl e | Inr v \<Rightarrow> f v)"

subsection \<open>TensorFlow operations\<close>

text \<open>
  Broadcasting of an elementwise binary operation: along each axis the two sizes are equal
  or one of them is 1, and the operand of size 1 is read at index 0 throughout.
\<close>

definition bc_ok :: "nat \<Rightarrow> nat \<Rightarrow> bool" where
  "bc_ok a b \<longleftrightarrow> a = b \<or> a = 1 \<or> b = 1"

definition bc_dim :: "nat \<Rightarrow> nat \<Rightarrow> nat" where
  "bc_dim a b = (if a = 1 then b else a)"

definition bc_ix :: "nat \<Rightarrow> nat \<Rightarrow> nat" where
  "bc_ix d i = (if d = 1 then 0 else i)"

definition broadcast2 :: "('a \<Rightarrow> 'b \<Rightarrow> 'c) \<Rightarrow> 'a tensor2 \<Rightarrow> 'b tensor2 \<Rightarrow> error + 'c tensor2" where
  "broadcast2 f x y =
     (if bc_ok (n0 x) (n0 y) \<and> bc_ok (n1 x) (n1 y)
      then Inr (Tensor2 (bc_dim (n0 x) (n0 y)) (bc_dim (n1 x) (n1 y))
                  (\<lambda>i j. f (el2 x (bc_ix (n0 x) i) (bc_ix (n1 x) j))
                           (el2 y (bc_ix (n0 y) i) (bc_ix (n1 y) j))))
      else Inl InvalidArgumentError)"

definition broadcast3 :: "('a \<Rightarrow> 'b \<Rightarrow> 'c) \<Rightarrow> 'a tensor3 \<Rightarrow> 'b tensor3 \<Rightarrow> error + 'c tensor3" where
  "broadcast3 f x y =
     (if bc_ok (d0 x) (d0 y) \<and> bc_ok (d1 x) (d1 y) \<and> bc_ok (d2 x) (d2 y)
      then Inr (Tensor3 (bc_dim (d0 x) (d0 y)) (bc_dim (d1 x) (d1 y)) (bc_dim (d2 x) (d2 y))
                  (\<lambda>i j k. f (el3 x (bc_ix (d0 x) i) (bc_ix (d1 x) j) (bc_ix (d2 x) k))
                             (el3 y (bc_ix (d0 y) i) (bc_ix (d1 y) j) (bc_ix (d2 y) k))))
      else Inl InvalidArgumentError)"

text \<open>\<^verbatim>\<open>x * y\<close>, \<^verbatim>\<open>x + y\<close> on tensors.\<close>

definition tf_multiply :: "real tensor3 \<Rightarrow> real tensor3 \<Rightarrow> error + real tensor3" where
  "tf_multiply x y = broadcast3 (\<lambda>a b. a * b) x y"


text \<open>
  \<^verbatim>\<open>tf.div(x, y)\<close> on rank-2 float tensors. A zero divisor inside the shape makes the
  floating-point quotient an infinity or a NaN.
\<close>

definition has_zero2 :: "real tensor2 \<Rightarrow> bool" where
  "has_zero2 y \<longleftrightarrow> (\<exists>i \<in> set [0..<n0 y]. \<exists>j \<in> set [0..<n1 y]. el2 y i j = 0)"

definition tf_div :: "real tensor2 \<Rightarrow> real tensor2 \<Rightarrow> error + real tensor2" where
  "tf_div x y =
     (case broadcast2 (\<lambda>a b. a / b) x y of
        Inl e \<Rightarrow> Inl e
      | Inr q \<Rightarrow> if n0 q \<noteq> 0 \<and> n1 q \<noteq> 0 \<and> has_zero2 y then Inl NotFinite else Inr q)"

text \<open>
  \<^verbatim>\<open>tf.sequence_mask(lengths, maxlen)\<close> on a rank-2 tensor of lengths: one more axis of
  size \<open>maxlen\<close>, true at position \<open>t\<close> iff \<open>t < length\<close>.
\<close>

definition sequence_mask :: "int tensor2 \<Rightarrow> nat \<Rightarrow> bool tensor3" where
  "sequence_mask lengths maxlen =
     Tensor3 (n0 lengths) (n1 lengths) maxlen (\<lambda>b j t. int t < el2 lengths b j)"

text \<open>
  Casts: \<^verbatim>\<open>dtype=tf.float32\<close> on a mask and \<^verbatim>\<open>tf.to_float\<close>. Given lengths of a float
  type, \<^verbatim>\<open>tf.sequence_mask\<close> first casts them to the integer type of \<open>maxlen\<close>; the cast
  truncates toward zero.
\<close>

definition to_float2 :: "bool tensor2 \<Rightarrow> real tensor2" where
  "to_float2 m = Tensor2 (n0 m) (n1 m) (\<lambda>i j. if el2 m i j then 1 else 0)"

definition to_float3 :: "bool tensor3 \<Rightarrow> real tensor3" where
  "to_float3 m = Tensor3 (d0 m) (d1 m) (d2 m) (\<lambda>i j k. if el3 m i j k then 1 else 0)"

definition cast_int2 :: "real tensor2 \<Rightarrow> int tensor2" where
  "cast_int2 x =
     Tensor2 (n0 x) (n1 x) (\<lambda>i j. if 0 \<le> el2 x i j then \<lfloor>el2 x i j\<rfloor> else \<lceil>el2 x i j\<rceil>)"

text \<open>\<^verbatim>\<open>tf.transpose(x, (0, 2, 1))\<close>.\<close>

definition transpose_021 :: "'a tensor3 \<Rightarrow> 'a tensor3" where
  "transpose_021 x = Tensor3 (d0 x) (d2 x) (d1 x) (\<lambda>b i j. el3 x b j i)"

text \<open>\<^verbatim>\<open>tf.tile(x, [1, 1, k])\<close>: \<open>k\<close> copies along the last axis.\<close>

definition tile_last :: "nat \<Rightarrow> 'a tensor3 \<Rightarrow> 'a tensor3" where
  "tile_last k x = Tensor3 (d0 x) (d1 x) (d2 x * k) (\<lambda>b t e. el3 x b t (e mod d2 x))"

text \<open>\<^verbatim>\<open>tf.expand_dims\<close> of a rank-2 tensor, at axis 1 and at axis 2.\<close>

definition expand_dims_1 :: "'a tensor2 \<Rightarrow> 'a tensor3" where
  "expand_dims_1 x = Tensor3 (n0 x) 1 (n1 x) (\<lambda>b i e. el2 x b e)"

definition expand_dims_2 :: "'a tensor2 \<Rightarrow> 'a tensor3" where
  "expand_dims_2 x = Tensor3 (n0 x) (n1 x) 1 (\<lambda>b t i. el2 x b t)"

text \<open>
  Reductions. \<^verbatim>\<open>tf.reduce_sum(x, 1, keep_dims=False)\<close> sums over the time axis;
  \<^verbatim>\<open>tf.reduce_sum(m, axis=-1, keep_dims=True)\<close> sums the columns of a rank-2 tensor;
  \<^verbatim>\<open>tf.reduce_max(x, 1, keep_dims=True)\<close> is the maximum over the time axis, which for
  an empty axis is minus infinity in every entry.
\<close>

definition reduce_sum_1 :: "real tensor3 \<Rightarrow> real tensor2" where
  "reduce_sum_1 x = Tensor2 (d0 x) (d2 x) (\<lambda>b e. sum_list (map (\<lambda>t. el3 x b t e) [0..<d1 x]))"

definition reduce_sum_last_keep :: "real tensor2 \<Rightarrow> real tensor2" where
  "reduce_sum_last_keep m = Tensor2 (n0 m) 1 (\<lambda>b i. sum_list (map (\<lambda>t. el2 m b t) [0..<n1 m]))"

definition reduce_max_1_keep :: "real tensor3 \<Rightarrow> error + real tensor3" where
  "reduce_max_1_keep x =
     (if d1 x = 0 \<and> d0 x \<noteq> 0 \<and> d2 x \<noteq> 0 then Inl NotFinite
      else Inr (Tensor3 (d0 x) 1 (d2 x) (\<lambda>b i e. Max (set (map (\<lambda>t. el3 x b t e) [0..<d1 x])))))"

section \<open>SequencePoolingLayer\<close>

record SequencePoolingLayer =
  mode :: pyval
  eps :: real
  supports_masking :: bool
  seq_len_max :: "nat option"

text \<open>The constructor: \<^verbatim>\<open>__init__(self, mode='mean', supports_masking=False)\<close>.\<close>

definition SequencePoolingLayer_init :: "pyval \<Rightarrow> bool \<Rightarrow> error + SequencePoolingLayer" where
  "SequencePoolingLayer_init mode_arg supports_masking_arg =
     (if mode_arg \<notin> set [PStr ''sum'', PStr ''mean'', PStr ''max'']
      then Inl (ValueError ''mode must be sum or mean'')
      else Inr \<lparr> mode = mode_arg, eps = 1 / 10 ^ 8,
                 supports_masking = supports_masking_arg, seq_len_max = None \<rparr>)"

text \<open>
  \<^verbatim>\<open>build(self, input_shape)\<close>. Keras passes the shapes of the inputs of the first call:
  a list of shapes for a list of inputs, one shape for a single input.
\<close>

datatype input_shape = Shape "nat list" | Shapes "nat list list"

definition SequencePoolingLayer_build ::
  "SequencePoolingLayer \<Rightarrow> input_shape \<Rightarrow> error + SequencePoolingLayer" where
  "SequencePoolingLayer_build l sh =
     (if \<not> supports_masking l then
        (case sh of
           Shapes (s # rest) \<Rightarrow>
             (if 1 < length s then Inr (l\<lparr> seq_len_max := Some (s ! 1) \<rparr>) else Inl IndexError)
         | Shapes [] \<Rightarrow> Inl IndexError
         | Shape [] \<Rightarrow> Inl IndexError
         | Shape (n # rest) \<Rightarrow> Inl TypeError)
      else Inr l)"

text \<open>
  The inputs of \<^verbatim>\<open>call\<close>: the pair \<^verbatim>\<open>[seq_value, seq_len]\<close> with \<^verbatim>\<open>seq_len\<close> a tensor of
  an integer type (\<open>SeqLen\<close>) or of a float type (\<open>SeqLenF\<close>), or the sequence tensor
  alone when the layer takes its mask from upstream.
\<close>

datatype seq_inputs =
    SeqLen "real tensor3" "int tensor2"
  | SeqLenF "real tensor3" "real tensor2"
  | SeqOnly "real tensor3"

text \<open>
  \<^verbatim>\<open>user_behavior_length\<close> is the length tensor as it was given, of an integer or a float
  type, or the float tensor of the row sums of the upstream mask. TensorFlow converts no
  type on its own: \<^verbatim>\<open>user_behavior_length+self.eps\<close> with the Python float \<^verbatim>\<open>1e-8\<close> is a
  \<^verbatim>\<open>TypeError\<close> on a tensor of an integer type.
\<close>

datatype lengths = IntLengths "int tensor2" | FloatLengths "real tensor2"

definition SequencePoolingLayer_call ::
  "SequencePoolingLayer \<Rightarrow> seq_inputs \<Rightarrow> bool tensor2 option \<Rightarrow> error + real tensor3" where
  "SequencePoolingLayer_call l seq_value_len_list mask_arg =
     bind
       (if supports_masking l then
          (case mask_arg of
             None \<Rightarrow> Inl (ValueError ''When supports_masking=True,input must support masking'')
           | Some m \<Rightarrow>
               (case seq_value_len_list of
                  SeqLen s n \<Rightarrow> Inl AttributeError
                | SeqLenF s n \<Rightarrow> Inl AttributeError
                | SeqOnly uiseq_embed_list \<Rightarrow>
                    (let mask = to_float2 m;
                         user_behavior_length = reduce_sum_last_keep mask
                     in Inr (uiseq_embed_list, FloatLengths user_behavior_length,
                             expand_dims_2 mask))))
        else
          (case seq_value_len_list of
             SeqOnly s \<Rightarrow> Inl TypeError
           | SeqLen uiseq_embed_list user_behavior_length \<Rightarrow>
               (case seq_len_max l of
                  None \<Rightarrow> Inl AttributeError
                | Some maxlen \<Rightarrow>
                    (let mask = to_float3 (sequence_mask user_behavior_length maxlen)
                     in Inr (uiseq_embed_list, IntLengths user_behavior_length,
                             transpose_021 mask)))
           | SeqLenF uiseq_embed_list user_behavior_length \<Rightarrow>
               (case seq_len_max l of
                  None \<Rightarrow> Inl AttributeError
                | Some maxlen \<Rightarrow>
                    (let mask = to_float3 (sequence_mask (cast_int2 user_behavior_length) maxlen)
                     in Inr (uiseq_embed_list, FloatLengths user_behavior_length,
                             transpose_021 mask)))))
       (\<lambda>(uiseq_embed_list, user_behavior_length, mask).
          let embedding_size = d2 uiseq_embed_list;
              mask = tile_last embedding_size mask
          in bind (tf_multiply uiseq_embed_list mask)
               (\<lambda>hist.
                  if mode l = PStr ''max'' then reduce_max_1_keep hist
                  else
                    let hist = reduce_sum_1 hist
                    in bind
                         (if mode l = PStr ''mean''
                          then (case user_behavior_length of
                                  IntLengths n \<Rightarrow> Inl TypeError
                                | FloatLengths n \<Rightarrow>
                                    tf_div hist
                                      (Tensor2 (n0 n) (n1 n) (\<lambda>i j. el2 n i j + eps l)))
                          else Inr hist)
                         (\<lambda>hist. Inr (expand_dims_1 hist))))"

section \<open>AttentionSequencePoolingLayer\<close>

text \<open>Further TensorFlow operations, used by the attention layers.\<close>

definition ones_like :: "real tensor3 \<Rightarrow> real tensor3" where
  "ones_like x = Tensor3 (d0 x) (d1 x) (d2 x) (\<lambda>b i j. 1)"

definition zeros_like :: "real tensor3 \<Rightarrow> real tensor3" where
  "zeros_like x = Tensor3 (d0 x) (d1 x) (d2 x) (\<lambda>b i j. 0)"

definition scalar_mul :: "real tensor3 \<Rightarrow> real \<Rightarrow> real tensor3" where
  "scalar_mul x c = Tensor3 (d0 x) (d1 x) (d2 x) (\<lambda>b i j. el3 x b i j * c)"

text \<open>
  \<^verbatim>\<open>x / c\<close> for a Python float \<open>c\<close>: dividing a non-empty tensor by zero gives
  infinities or NaNs.
\<close>

definition scalar_div :: "real tensor3 \<Rightarrow> real \<Rightarrow> error + real tensor3" where
  "scalar_div x c =
     (if c = 0 \<and> d0 x \<noteq> 0 \<and> d1 x \<noteq> 0 \<and> d2 x \<noteq> 0 then Inl NotFinite
      else Inr (Tensor3 (d0 x) (d1 x) (d2 x) (\<lambda>b i j. el3 x b i j / c)))"

text \<open>\<^verbatim>\<open>tf.where(condition, x, y)\<close> with a rank-3 condition: the three shapes are equal.\<close>

definition tf_where :: "bool tensor3 \<Rightarrow> 'a tensor3 \<Rightarrow> 'a tensor3 \<Rightarrow> error + 'a tensor3" where
  "tf_where c x y =
     (if shape3 c = shape3 x \<and> shape3 x = shape3 y
      then Inr (Tensor3 (d0 x) (d1 x) (d2 x) (\<lambda>b i j. if el3 c b i j then el3 x b i j else el3 y b i j))
      else Inl InvalidArgumentError)"

text \<open>\<^verbatim>\<open>tf.nn.softmax(x)\<close>: over the last axis.\<close>

definition softmax :: "real tensor3 \<Rightarrow> real tensor3" where
  "softmax x =
     Tensor3 (d0 x) (d1 x) (d2 x)
       (\<lambda>b i j. exp (el3 x b i j) / sum_list (map (\<lambda>k. exp (el3 x b i k)) [0..<d2 x]))"

text \<open>\<^verbatim>\<open>tf.matmul(a, b)\<close> on rank-3 tensors: a matrix product for every batch row.\<close>

definition tf_matmul :: "real tensor3 \<Rightarrow> real tensor3 \<Rightarrow> error + real tensor3" where
  "tf_matmul a b =
     (if d0 a = d0 b \<and> d2 a = d1 b
      then Inr (Tensor3 (d0 a) (d1 a) (d2 b)
                  (\<lambda>r i e. sum_list (map (\<lambda>t. el3 a r i t * el3 b r t e) [0..<d2 a])))
      else Inl InvalidArgumentError)"

text \<open>
  The scoring network \<^verbatim>\<open>LocalActivationUnit\<close> comes from \<^verbatim>\<open>deepctr/layers.py\<close> and is a
  parameter here: given \<^verbatim>\<open>hidden_size\<close> and \<^verbatim>\<open>activation\<close> it maps queries and keys to a
  score tensor, or fails.
\<close>

type_synonym scoring = "pyval \<Rightarrow> pyval \<Rightarrow> real tensor3 \<Rightarrow> real tensor3 \<Rightarrow> error + real tensor3"

text \<open>
  The fields of the four layer classes have a record each; where two classes use the same
  attribute name the later record prefixes it (\<open>att_\<close>, \<open>bilstm_\<close>, \<open>v2_\<close>).
\<close>

record AttentionSequencePoolingLayer =
  hidden_size :: pyval
  activation :: pyval
  weight_normalization :: bool
  att_supports_masking :: bool

definition AttentionSequencePoolingLayer_init ::
  "pyval \<Rightarrow> pyval \<Rightarrow> bool \<Rightarrow> bool \<Rightarrow> error + AttentionSequencePoolingLayer" where
  "AttentionSequencePoolingLayer_init hidden_size_arg activation_arg weight_normalization_arg
       supports_masking_arg =
     Inr \<lparr> hidden_size = hidden_size_arg, activation = activation_arg,
           weight_normalization = weight_normalization_arg,
           att_supports_masking = supports_masking_arg \<rparr>"

text \<open>
  \<^verbatim>\<open>build\<close>. The message of the third check is formatted with \<^verbatim>\<open>% (input_shape)\<close>, a
  list where the three \<^verbatim>\<open>%s\<close> need a tuple, so that check ends in the \<^verbatim>\<open>TypeError\<close> of
  the formatting, not in the \<^verbatim>\<open>ValueError\<close> it was building.
\<close>

definition AttentionSequencePoolingLayer_build ::
  "AttentionSequencePoolingLayer \<Rightarrow> input_shape \<Rightarrow> error + AttentionSequencePoolingLayer" where
  "AttentionSequencePoolingLayer_build l sh =
     (if \<not> att_supports_masking l then
        (case sh of
           Shape s \<Rightarrow> Inl (ValueError ''A AttentionSequencePoolingLayer layer should be called on a list of 3 inputs'')
         | Shapes ss \<Rightarrow>
             if length ss \<noteq> 3
             then Inl (ValueError ''A AttentionSequencePoolingLayer layer should be called on a list of 3 inputs'')
             else if length (ss ! 0) \<noteq> 3 \<or> length (ss ! 1) \<noteq> 3 \<or> length (ss ! 2) \<noteq> 2
             then Inl (ValueError ''Unexpected inputs dimensions'')
             else if last (ss ! 0) \<noteq> last (ss ! 1) \<or> ss ! 0 ! 1 \<noteq> 1 \<or> ss ! 2 ! 1 \<noteq> 1
             then Inl TypeError
             else Inr l)
      else Inr l)"

text \<open>
  The inputs of \<^verbatim>\<open>call\<close>: \<^verbatim>\<open>[query, keys, keys_length]\<close>, or \<^verbatim>\<open>[query, keys]\<close> when the mask
  comes from upstream. Unpacking a list of the wrong length is a \<^verbatim>\<open>ValueError\<close>.
\<close>

datatype att_inputs =
    QKL "real tensor3" "real tensor3" "int tensor2"
  | QK "real tensor3" "real tensor3"

text \<open>
  The attention weights of \<^verbatim>\<open>call\<close>: the value of \<^verbatim>\<open>outputs\<close> before the final
  \<^verbatim>\<open>tf.matmul(outputs, keys)\<close>, together with \<^verbatim>\<open>keys\<close>.
\<close>

definition AttentionSequencePoolingLayer_weights ::
  "scoring \<Rightarrow> AttentionSequencePoolingLayer \<Rightarrow> att_inputs \<Rightarrow> bool tensor2 list option
     \<Rightarrow> error + real tensor3 \<times> real tensor3" where
  "AttentionSequencePoolingLayer_weights LocalActivationUnit l inputs mask_arg =
     bind
       (if att_supports_masking l then
          (case mask_arg of
             None \<Rightarrow> Inl (ValueError ''When supports_masking=True,input must support masking'')
           | Some ms \<Rightarrow>
               (case inputs of
                  QKL q k n \<Rightarrow> Inl (ValueError ''too many values to unpack'')
                | QK queries keys \<Rightarrow>
                    if ms = [] then Inl IndexError
                    else Inr (queries, keys, expand_dims_1 (last ms))))
        else
          (case inputs of
             QK q k \<Rightarrow> Inl (ValueError ''not enough values to unpack'')
           | QKL queries keys keys_length \<Rightarrow>
               (let hist_len = d1 keys
                in Inr (queries, keys, sequence_mask keys_length hist_len))))
       (\<lambda>(queries, keys, key_masks).
          bind (LocalActivationUnit (hidden_size l) (activation l) queries keys)
            (\<lambda>attention_score.
               let outputs = transpose_021 attention_score;
                   paddings = (if weight_normalization l
                               then scalar_mul (ones_like outputs) (- (2 ^ 32) + 1)
                               else zeros_like outputs)
               in bind (tf_where key_masks outputs paddings)
                    (\<lambda>outputs.
                       let outputs = (if weight_normalization l then softmax outputs else outputs)
                       in Inr (outputs, keys))))"

definition AttentionSequencePoolingLayer_call ::
  "scoring \<Rightarrow> AttentionSequencePoolingLayer \<Rightarrow> att_inputs \<Rightarrow> bool tensor2 list option
     \<Rightarrow> error + real tensor3" where
  "AttentionSequencePoolingLayer_call LocalActivationUnit l inputs mask_arg =
     bind (AttentionSequencePoolingLayer_weights LocalActivationUnit l inputs mask_arg)
       (\<lambda>(outputs, keys). tf_matmul outputs keys)"

section \<open>BiLSTM\<close>



text \<open>
  The recurrent encoder \<^verbatim>\<open>LSTM\<close> is Keras's and is a parameter here: the constructor
  takes the unit width, the dropout and the \<^verbatim>\<open>go_backwards\<close> flag, and the number of the
  instance stands for its own weights; an instance maps a sequence tensor to a sequence
  tensor, or fails.
\<close>

type_synonym lstm = "real tensor3 \<Rightarrow> error + real tensor3"


record BiLSTM =
  units :: int
  layers :: int
  res_layers :: int
  dropout :: real
  merge_mode :: pyval
  bilstm_supports_masking :: bool
  fw_lstm :: "lstm list option"
  bw_lstm :: "lstm list option"

definition BiLSTM_init :: "int \<Rightarrow> int \<Rightarrow> int \<Rightarrow> real \<Rightarrow> pyval \<Rightarrow> error + BiLSTM" where
  "BiLSTM_init units_arg layers_arg res_layers_arg dropout_arg merge_mode_arg =
     (if merge_mode_arg \<notin> set [PStr ''fw'', PStr ''bw'', PStr ''sum'', PStr ''mul'', PStr ''ave'',
                                  PStr ''concat'', PNone]
      then Inl (ValueError ''Invalid merge mode. Merge mode should be one of {fw,bw,sum, mul, ave, concat, None}'')
      else Inr \<lparr> units = units_arg, layers = layers_arg, res_layers = res_layers_arg,
                 dropout = dropout_arg, merge_mode = merge_mode_arg,
                 bilstm_supports_masking = True, fw_lstm = None, bw_lstm = None \<rparr>)"







text \<open>\<^verbatim>\<open>compute_output_shape(self, input_shape)\<close> on the shape of the single input.\<close>

definition BiLSTM_compute_output_shape :: "BiLSTM \<Rightarrow> nat list \<Rightarrow> error + input_shape" where
  "BiLSTM_compute_output_shape l sh =
     (if merge_mode l = PNone then Inr (Shapes [sh, sh])
      else if merge_mode l = PStr ''concat''
        then (if sh = [] then Inl IndexError else Inr (Shape (butlast sh @ [last sh * 2])))
      else Inr (Shape sh))"

section \<open>AttentionSequencePoolingLayerv2\<close>

text \<open>
  \<^verbatim>\<open>K.repeat_elements(x, rep, 1)\<close>; \<^verbatim>\<open>K.l2_normalize(x, axis=-1)\<close>, which divides by
  \<open>sqrt (max (sum of squares) 1e-12)\<close>; \<^verbatim>\<open>K.mean(x, axis=-1, keepdims=True)\<close>, which over an
  empty axis is a NaN.
\<close>

definition repeat_elements_1 :: "'a tensor3 \<Rightarrow> nat \<Rightarrow> 'a tensor3" where
  "repeat_elements_1 x rep = Tensor3 (d0 x) (d1 x * rep) (d2 x) (\<lambda>b t e. el3 x b (t div rep) e)"

definition l2_normalize :: "real tensor3 \<Rightarrow> real tensor3" where
  "l2_normalize x =
     Tensor3 (d0 x) (d1 x) (d2 x)
       (\<lambda>b t e. el3 x b t e /
          sqrt (max (sum_list (map (\<lambda>k. el3 x b t k * el3 x b t k) [0..<d2 x])) (1 / 10 ^ 12)))"

definition mean_last_keep :: "real tensor3 \<Rightarrow> error + real tensor3" where
  "mean_last_keep x =
     (if d2 x = 0 \<and> d0 x \<noteq> 0 \<and> d1 x \<noteq> 0 then Inl NotFinite
      else Inr (Tensor3 (d0 x) (d1 x) 1
                  (\<lambda>b t i. sum_list (map (\<lambda>k. el3 x b t k) [0..<d2 x]) / real (d2 x))))"

text \<open>The local function \<^verbatim>\<open>cosine_distance\<close> of \<^verbatim>\<open>call\<close>.\<close>

definition cosine_distance :: "real tensor3 \<Rightarrow> real tensor3 \<Rightarrow> error + real tensor3" where
  "cosine_distance x y =
     (let x = l2_normalize x;
          y = l2_normalize y
      in bind (tf_multiply x y) mean_last_keep)"

record AttentionSequencePoolingLayerv2 =
  v2_hidden_size :: pyval
  v2_activation :: pyval
  v2_weight_normalization :: bool
  sim_type :: pyval

definition AttentionSequencePoolingLayerv2_init ::
  "pyval \<Rightarrow> pyval \<Rightarrow> bool \<Rightarrow> pyval \<Rightarrow> error + AttentionSequencePoolingLayerv2" where
  "AttentionSequencePoolingLayerv2_init hidden_size_arg activation_arg weight_normalization_arg
       sim_type_arg =
     Inr \<lparr> v2_hidden_size = hidden_size_arg, v2_activation = activation_arg,
           v2_weight_normalization = weight_normalization_arg, sim_type = sim_type_arg \<rparr>"

text \<open>\<^verbatim>\<open>build\<close>: every check is commented out; only the base class's \<^verbatim>\<open>build\<close> runs.\<close>

definition AttentionSequencePoolingLayerv2_build ::
  "AttentionSequencePoolingLayerv2 \<Rightarrow> input_shape \<Rightarrow> error + AttentionSequencePoolingLayerv2" where
  "AttentionSequencePoolingLayerv2_build l sh = Inr l"

text \<open>
  The score of \<^verbatim>\<open>call\<close>, by \<^verbatim>\<open>sim_type\<close>. The module neither defines nor imports
  \<^verbatim>\<open>NaiveActivationUnit\<close>, so the \<^verbatim>\<open>mat\<close> branch ends in a \<^verbatim>\<open>NameError\<close>; with a
  \<^verbatim>\<open>sim_type\<close> that matches no branch, \<^verbatim>\<open>attention_score\<close> is read before it is bound.
\<close>

definition AttentionSequencePoolingLayerv2_score ::
  "scoring \<Rightarrow> AttentionSequencePoolingLayerv2 \<Rightarrow> real tensor3 \<Rightarrow> real tensor3
     \<Rightarrow> error + real tensor3" where
  "AttentionSequencePoolingLayerv2_score LocalActivationUnit l queries keys =
     (if sim_type l = PStr ''nn''
        then LocalActivationUnit (v2_hidden_size l) (v2_activation l) queries keys
      else if sim_type l = PStr ''mat'' then Inl (NameError ''NaiveActivationUnit'')
      else if sim_type l = PStr ''cos''
        then (let keys_len = d1 keys;
                  queries = repeat_elements_1 queries keys_len
              in cosine_distance queries keys)
      else Inl (UnboundLocalError ''attention_score''))"

definition AttentionSequencePoolingLayerv2_call ::
  "scoring \<Rightarrow> AttentionSequencePoolingLayerv2 \<Rightarrow> att_inputs \<Rightarrow> error + real tensor3" where
  "AttentionSequencePoolingLayerv2_call LocalActivationUnit l inputs =
     (case inputs of
        QK q k \<Rightarrow> Inl (ValueError ''not enough values to unpack'')
      | QKL queries keys keys_length \<Rightarrow>
          (let hist_len = d1 keys
           in bind (AttentionSequencePoolingLayerv2_score LocalActivationUnit l queries keys)
                (\<lambda>attention_score.
                   let attention_score = transpose_021 attention_score;
                       key_masks = sequence_mask keys_length hist_len;
                       paddings = (if v2_weight_normalization l
                                   then scalar_mul (ones_like attention_score) (- (2 ^ 32) + 1)
                                   else zeros_like attention_score)
                   in bind (tf_where key_masks attention_score paddings)
                        (\<lambda>attention_score.
                           bind (scalar_div attention_score (sqrt (real (d2 keys))))
                             (\<lambda>attention_score.
                                Inr (if v2_weight_normalization l then softmax attention_score
                                     else attention_score))))))"

section \<open>Layer configurations\<close>

text \<open>
  \<^verbatim>\<open>dict(list_of_pairs)\<close>: a later pair with the same key replaces an earlier one. The
  configuration of the base class \<^verbatim>\<open>Layer\<close> is Keras's and is a parameter.
\<close>

definition py_dict :: "(string \<times> pyval) list \<Rightarrow> string \<Rightarrow> pyval option" where
  "py_dict kvs = map_of (rev kvs)"

definition SequencePoolingLayer_get_config ::
  "SequencePoolingLayer \<Rightarrow> (string \<times> pyval) list \<Rightarrow> string \<Rightarrow> pyval option" where
  "SequencePoolingLayer_get_config l base_config =
     (let config = [(''mode'', mode l), (''supports_masking'', PBool (supports_masking l))]
      in py_dict (base_config @ config))"

definition AttentionSequencePoolingLayer_get_config ::
  "AttentionSequencePoolingLayer \<Rightarrow> (string \<times> pyval) list \<Rightarrow> string \<Rightarrow> pyval option" where
  "AttentionSequencePoolingLayer_get_config l base_config =
     (let config = [(''hidden_size'', hidden_size l), (''activation'', activation l),
                    (''weight_normalization'', PBool (weight_normalization l)),
                    (''supports_masking'', PBool (att_supports_masking l))]
      in py_dict (base_config @ config))"

definition BiLSTM_get_config ::
  "BiLSTM \<Rightarrow> (string \<times> pyval) list \<Rightarrow> string \<Rightarrow> pyval option" where
  "BiLSTM_get_config l base_config =
     (let config = [(''units'', PInt (units l)), (''layers'', PInt (layers l)),
                    (''res_layers'', PInt (res_layers l)), (''dropout'', PFloat (dropout l)),
                    (''merge_mode'', merge_mode l)]
      in py_dict (base_config @ config))"

definition AttentionSequencePoolingLayerv2_get_config ::
  "AttentionSequencePoolingLayerv2 \<Rightarrow> (string \<times> pyval) list \<Rightarrow> string \<Rightarrow> pyval option" where
  "AttentionSequencePoolingLayerv2_get_config l base_config =
     (let config = [(''hidden_size'', v2_hidden_size l), (''activation'', v2_activation l),
                    (''weight_normalization'', PBool (v2_weight_normalization l))]
      in py_dict (base_config @ config))"

section \<open>Example inputs\<close>

text \<open>
  A batch of two sequences of four positions and embedding width three, with lengths 2 and 4;
  the first row is zero beyond its length.
\<close>

definition ex_seq :: "real tensor3" where
  "ex_seq = of_rows3 4 3 [[[1, 2, 3], [4, 5, 6], [0, 0, 0], [0, 0, 0]],
                          [[1, 1, 1], [2, 2, 2], [3, 3, 3], [4, 4, 4]]]"

definition ex_len :: "int tensor2" where
  "ex_len = of_rows2 1 [[2], [4]]"

text \<open>
  Lengths 0 and 4 for the same batch, and an upstream mask for it in which row 0 is valid at
  its first two positions and row 1 nowhere.
\<close>

definition ex_len0 :: "int tensor2" where
  "ex_len0 = of_rows2 1 [[0], [4]]"


text \<open>
  A batch of two sequences of two positions and embedding width one: row 0 holds a negative
  value followed by padding, row 1 the value 7 twice. Lengths 1 and 2, and the upstream mask
  that says the same.
\<close>

definition ex_neg :: "real tensor3" where
  "ex_neg = of_rows3 2 1 [[[- 1], [- 5]], [[7], [7]]]"

definition ex_len12 :: "int tensor2" where
  "ex_len12 = of_rows2 1 [[1], [2]]"

definition ex_mask2 :: "bool tensor2" where
  "ex_mask2 = Tensor2 2 2 (\<lambda>b t. b = 1 \<or> t = 0)"

text \<open>
  A scoring network that scores every key by its first coordinate, and a query tensor of
  shape (2, 1, 3) for the first example batch.
\<close>

definition ex_lau :: scoring where
  "ex_lau hs act q k = Inr (Tensor3 (d0 k) (d1 k) 1 (\<lambda>b t i. el3 k b t 0))"

definition ex_query :: "real tensor3" where
  "ex_query = of_rows3 1 3 [[[1, 0, 0]], [[0, 1, 0]]]"

text \<open>
  A query of embedding width two and two keys for it: the first key is the query itself,
  the second is orthogonal to it.
\<close>

definition ex_unit_query :: "real tensor3" where
  "ex_unit_query = of_rows3 1 2 [[[1, 0]]]"

definition ex_unit_keys :: "real tensor3" where
  "ex_unit_keys = of_rows3 2 2 [[[1, 0], [0, 3]]]"



section \<open>Helper facts\<close>


lemma bc_ix_in: "i < d \<Longrightarrow> bc_ix d i = i"
  by (auto simp: bc_ix_def)

lemma bc_ok_refl: "bc_ok a a"
  by (simp add: bc_ok_def)

lemma bc_dim_refl: "bc_dim a a = a"
  by (simp add: bc_dim_def)

lemma sum_list_map_upt: "sum_list (map f [0..<n]) = (\<Sum>t<n. f t)"
  by (simp add: interv_sum_list_conv_sum_set_nat atLeast0LessThan)

lemma masked_explicit:
  assumes "n0 len = d0 seq" "n1 len = 1"
  shows "\<exists>h. tf_multiply seq (tile_last (d2 seq) (transpose_021 (to_float3 (sequence_mask len (d1 seq))))) = Inr h
     \<and> d0 h = d0 seq \<and> d1 h = d1 seq \<and> d2 h = d2 seq
     \<and> (\<forall>b<d0 seq. \<forall>t<d1 seq. \<forall>e<d2 seq. el3 h b t e = (if int t < el2 len b 0 then el3 seq b t e else 0))"
  using assms
  by (simp add: tf_multiply_def broadcast3_def tile_last_def transpose_021_def to_float3_def
      sequence_mask_def bc_ok_refl bc_dim_refl bc_ix_in)

lemma masked_sum_prefix:
  fixes f :: "nat \<Rightarrow> real"
  assumes "0 \<le> n" "n \<le> int T"
  shows "(\<Sum>t<T. if int t < n then f t else 0) = (\<Sum>t<nat n. f t)"
proof -
  have "(\<Sum>t<T. if int t < n then f t else 0) = (\<Sum>t\<in>{..<T} \<inter> {t. int t < n}. f t)"
    by (simp add: sum.inter_restrict)
  also have "{..<T} \<inter> {t. int t < n} = {..<nat n}"
    using assms by auto
  finally show ?thesis .
qed

lemma explicit_built:
  assumes "SequencePoolingLayer_init m False = Inr l0"
      and "SequencePoolingLayer_build l0 (Shapes [shape3 seq, shape2 len]) = Inr l"
  shows "mode l = m \<and> \<not> supports_masking l \<and> seq_len_max l = Some (d1 seq) \<and> eps l = 1 / 10 ^ 8
         \<and> m \<in> {PStr ''sum'', PStr ''mean'', PStr ''max''}"
  using assms
  by (auto simp: SequencePoolingLayer_init_def SequencePoolingLayer_build_def shape3_def
      split: if_splits)

lemma sum_call:
  assumes l: "mode l = PStr ''sum''" "\<not> supports_masking l" "seq_len_max l = Some (d1 seq)"
      and sh: "n0 len = d0 seq" "n1 len = 1"
  shows "\<exists>out. SequencePoolingLayer_call l (SeqLen seq len) mk = Inr out
           \<and> shape3 out = [d0 seq, 1, d2 seq]
           \<and> (\<forall>b<d0 seq. \<forall>e<d2 seq. el3 out b 0 e = (\<Sum>t<d1 seq. if int t < el2 len b 0 then el3 seq b t e else 0))"
proof -
  from masked_explicit[OF sh] obtain h where
    h: "tf_multiply seq (tile_last (d2 seq) (transpose_021 (to_float3 (sequence_mask len (d1 seq))))) = Inr h"
    and d: "d0 h = d0 seq" "d1 h = d1 seq" "d2 h = d2 seq"
    and e: "\<forall>b<d0 seq. \<forall>t<d1 seq. \<forall>e<d2 seq. el3 h b t e = (if int t < el2 len b 0 then el3 seq b t e else 0)"
    by blast
  have call: "SequencePoolingLayer_call l (SeqLen seq len) mk = Inr (expand_dims_1 (reduce_sum_1 h))"
    using l h by (simp add: SequencePoolingLayer_call_def bind_def Let_def)
  show ?thesis
    unfolding call
    using d e by (simp add: expand_dims_1_def reduce_sum_1_def shape3_def sum_list_map_upt)
qed

section \<open>Sum pooling\<close>

text \<open>
  Claim C1. A layer constructed with \<^verbatim>\<open>mode='sum'\<close> in explicit-length mode and built on
  the shapes of a sequence tensor \<open>seq\<close> of shape (batch, max_length, embedding_dim) and a
  length tensor \<open>len\<close> of shape (batch, 1) returns a tensor of shape
  (batch, 1, embedding_dim). For every row \<open>b\<close> whose length lies in [0, max_length], the
  entry at row \<open>b\<close> and coordinate \<open>e\<close> is the sum of \<open>seq\<close> over the first
  \<open>length\<close> time positions, and any other sequence tensor of the same shape that agrees
  with \<open>seq\<close> on those positions of row \<open>b\<close> gives the same entries at row \<open>b\<close>: the
  values stored at the padded positions do not matter.
\<close>

theorem sum_pooling_sums_valid_prefix:
  assumes init: "SequencePoolingLayer_init (PStr ''sum'') False = Inr l0"
      and build: "SequencePoolingLayer_build l0 (Shapes [shape3 seq, shape2 len]) = Inr l"
      and sh: "n0 len = d0 seq" "n1 len = 1"
  shows "\<exists>out. SequencePoolingLayer_call l (SeqLen seq len) mk = Inr out
           \<and> shape3 out = [d0 seq, 1, d2 seq]
           \<and> (\<forall>b<d0 seq. 0 \<le> el2 len b 0 \<and> el2 len b 0 \<le> int (d1 seq) \<longrightarrow>
                 (\<forall>e<d2 seq. el3 out b 0 e = (\<Sum>t<nat (el2 len b 0). el3 seq b t e))
               \<and> (\<forall>seq'. shape3 seq' = shape3 seq
                          \<and> (\<forall>t<nat (el2 len b 0). \<forall>e<d2 seq. el3 seq' b t e = el3 seq b t e) \<longrightarrow>
                      (\<exists>out'. SequencePoolingLayer_call l (SeqLen seq' len) mk = Inr out'
                          \<and> shape3 out' = shape3 out
                          \<and> (\<forall>e<d2 seq. el3 out' b 0 e = el3 out b 0 e))))"
proof -
  from explicit_built[OF init build]
  have l: "mode l = PStr ''sum''" "\<not> supports_masking l" "seq_len_max l = Some (d1 seq)"
    by simp_all
  from sum_call[OF l sh, of mk] obtain out where
    call: "SequencePoolingLayer_call l (SeqLen seq len) mk = Inr out"
    and shp: "shape3 out = [d0 seq, 1, d2 seq]"
    and ent: "\<forall>b<d0 seq. \<forall>e<d2 seq. el3 out b 0 e =
                (\<Sum>t<d1 seq. if int t < el2 len b 0 then el3 seq b t e else 0)"
    by blast
  have pre: "el3 out b 0 e = (\<Sum>t<nat (el2 len b 0). el3 seq b t e)"
    if "b < d0 seq" "0 \<le> el2 len b 0" "el2 len b 0 \<le> int (d1 seq)" "e < d2 seq" for b e
    using ent that by (simp add: masked_sum_prefix)
  have indep: "\<exists>out'. SequencePoolingLayer_call l (SeqLen seq' len) mk = Inr out'
                  \<and> shape3 out' = shape3 out \<and> (\<forall>e<d2 seq. el3 out' b 0 e = el3 out b 0 e)"
    if b: "b < d0 seq" "0 \<le> el2 len b 0" "el2 len b 0 \<le> int (d1 seq)"
      and s': "shape3 seq' = shape3 seq"
      and agree: "\<forall>t<nat (el2 len b 0). \<forall>e<d2 seq. el3 seq' b t e = el3 seq b t e"
    for b seq'
  proof -
    from s' have d: "d0 seq' = d0 seq" "d1 seq' = d1 seq" "d2 seq' = d2 seq"
      by (simp_all add: shape3_def)
    have l': "seq_len_max l = Some (d1 seq')" and sh': "n0 len = d0 seq'"
      using l sh d by simp_all
    from sum_call[OF l(1) l(2) l' sh' sh(2), of mk] obtain out' where
      call': "SequencePoolingLayer_call l (SeqLen seq' len) mk = Inr out'"
      and shp': "shape3 out' = [d0 seq', 1, d2 seq']"
      and ent': "\<forall>b<d0 seq'. \<forall>e<d2 seq'. el3 out' b 0 e =
                (\<Sum>t<d1 seq'. if int t < el2 len b 0 then el3 seq' b t e else 0)"
      by blast
    have "el3 out' b 0 e = el3 out b 0 e" if "e < d2 seq" for e
    proof -
      have "el3 out' b 0 e = (\<Sum>t<nat (el2 len b 0). el3 seq' b t e)"
        using ent' b that d by (simp add: masked_sum_prefix)
      also have "\<dots> = (\<Sum>t<nat (el2 len b 0). el3 seq b t e)"
        using agree that by simp
      also have "\<dots> = el3 out b 0 e"
        using pre[OF b that] by simp
      finally show ?thesis .
    qed
    with call' shp' shp d show ?thesis by simp
  qed
  from call shp pre indep show ?thesis by blast
qed

text \<open>
  The theorem at the example batch: row 0 has length 2, and its pooled entries are the sums of
  its first two positions.
\<close>

theorem sum_pooling_sums_valid_prefix_witness:
  "\<exists>out. SequencePoolingLayer_call
            \<lparr> mode = PStr ''sum'', eps = 1 / 10 ^ 8, supports_masking = False, seq_len_max = Some 4 \<rparr>
            (SeqLen ex_seq ex_len) None = Inr out
        \<and> shape3 out = [2, 1, 3]
        \<and> el3 out 0 0 0 = 5 \<and> el3 out 0 0 1 = 7 \<and> el3 out 0 0 2 = 9"
proof -
  let ?new = "\<lparr> mode = PStr ''sum'', eps = 1 / 10 ^ 8, supports_masking = False, seq_len_max = None \<rparr>"
  let ?l = "\<lparr> mode = PStr ''sum'', eps = 1 / 10 ^ 8, supports_masking = False, seq_len_max = Some 4 \<rparr>"
  have i: "SequencePoolingLayer_init (PStr ''sum'') False = Inr ?new"
    by (simp add: SequencePoolingLayer_init_def)
  have b: "SequencePoolingLayer_build ?new (Shapes [shape3 ex_seq, shape2 ex_len]) = Inr ?l"
    by (simp add: SequencePoolingLayer_build_def shape3_def shape2_def ex_seq_def ex_len_def
        of_rows3_def of_rows2_def)
  have s: "n0 ex_len = d0 ex_seq" "n1 ex_len = 1"
    by (simp_all add: ex_seq_def ex_len_def of_rows3_def of_rows2_def)
  from sum_pooling_sums_valid_prefix[OF i b s, of None] obtain out where
    c: "SequencePoolingLayer_call ?l (SeqLen ex_seq ex_len) None = Inr out"
    and shp: "shape3 out = [d0 ex_seq, 1, d2 ex_seq]"
    and r: "\<forall>b<d0 ex_seq. 0 \<le> el2 ex_len b 0 \<and> el2 ex_len b 0 \<le> int (d1 ex_seq) \<longrightarrow>
              (\<forall>e<d2 ex_seq. el3 out b 0 e = (\<Sum>t<nat (el2 ex_len b 0). el3 ex_seq b t e))"
    by blast
  have dims: "d0 ex_seq = 2" "d1 ex_seq = 4" "d2 ex_seq = 3" "el2 ex_len 0 0 = 2"
    by (simp_all add: ex_seq_def ex_len_def of_rows3_def of_rows2_def)
  have row: "\<forall>e<3. el3 out 0 0 e = (\<Sum>t<2. el3 ex_seq 0 t e)"
    using r[rule_format, of 0] dims by simp
  have "el3 out 0 0 0 = 5" "el3 out 0 0 1 = 7" "el3 out 0 0 2 = 9"
    using row by (simp_all add: ex_seq_def of_rows3_def eval_nat_numeral lessThan_Suc)
  with c shp dims show ?thesis by simp
qed

section \<open>Construction and configuration\<close>

text \<open>
  Claim C9. The constructor of \<^verbatim>\<open>SequencePoolingLayer\<close> returns a layer exactly for the
  modes \<^verbatim>\<open>'sum'\<close>, \<^verbatim>\<open>'mean'\<close> and \<^verbatim>\<open>'max'\<close> and raises for every other value; the
  constructor of \<^verbatim>\<open>BiLSTM\<close> returns a layer exactly for the merge modes \<^verbatim>\<open>'fw'\<close>,
  \<^verbatim>\<open>'bw'\<close>, \<^verbatim>\<open>'sum'\<close>, \<^verbatim>\<open>'mul'\<close>, \<^verbatim>\<open>'ave'\<close>, \<^verbatim>\<open>'concat'\<close> and \<^verbatim>\<open>None\<close> and raises
  for every other value. The exception is Python's \<^verbatim>\<open>ValueError\<close>, the module's
  configuration error.
\<close>

theorem construction_fails_iff_option_invalid:
  "((\<exists>l. SequencePoolingLayer_init m sm = Inr l) \<longleftrightarrow> m \<in> {PStr ''sum'', PStr ''mean'', PStr ''max''})
   \<and> ((\<exists>msg. SequencePoolingLayer_init m sm = Inl (ValueError msg)) \<longleftrightarrow>
        m \<notin> {PStr ''sum'', PStr ''mean'', PStr ''max''})
   \<and> ((\<exists>l. BiLSTM_init u n r d mm = Inr l) \<longleftrightarrow>
        mm \<in> {PStr ''fw'', PStr ''bw'', PStr ''sum'', PStr ''mul'', PStr ''ave'', PStr ''concat'', PNone})
   \<and> ((\<exists>msg. BiLSTM_init u n r d mm = Inl (ValueError msg)) \<longleftrightarrow>
        mm \<notin> {PStr ''fw'', PStr ''bw'', PStr ''sum'', PStr ''mul'', PStr ''ave'', PStr ''concat'', PNone})"
  by (simp add: SequencePoolingLayer_init_def BiLSTM_init_def)

text \<open>
  The theorem at an accepted and a refused value of each option; the string \<^verbatim>\<open>'none'\<close> is
  not the value \<^verbatim>\<open>None\<close> and is refused.
\<close>

theorem construction_fails_iff_option_invalid_witness:
  "(\<exists>l. SequencePoolingLayer_init (PStr ''max'') False = Inr l)
   \<and> (\<exists>msg. SequencePoolingLayer_init (PStr ''median'') False = Inl (ValueError msg))
   \<and> (\<exists>l. BiLSTM_init 8 2 0 (1 / 5) PNone = Inr l)
   \<and> (\<exists>msg. BiLSTM_init 8 2 0 (1 / 5) (PStr ''none'') = Inl (ValueError msg))"
  using construction_fails_iff_option_invalid[of "PStr ''max''" False 8 2 0 "1 / 5" PNone]
        construction_fails_iff_option_invalid[of "PStr ''median''" False 8 2 0 "1 / 5" "PStr ''none''"]
  by simp

text \<open>
  Claim C10. \<^verbatim>\<open>AttentionSequencePoolingLayerv2\<close> checks nothing before \<^verbatim>\<open>call\<close>: the
  constructor returns a layer holding whatever \<^verbatim>\<open>sim_type\<close> it was given, \<^verbatim>\<open>build\<close>
  accepts every input shape, and with a \<^verbatim>\<open>sim_type\<close> other than \<^verbatim>\<open>'nn'\<close>, \<^verbatim>\<open>'mat'\<close> and
  \<^verbatim>\<open>'cos'\<close> a call on three inputs ends in the unbound-variable error for
  \<^verbatim>\<open>attention_score\<close>, whatever the scoring network and the inputs are.
\<close>

theorem v2_validates_nothing_before_call:
  "\<exists>l. AttentionSequencePoolingLayerv2_init hs act wn st = Inr l
      \<and> sim_type l = st
      \<and> AttentionSequencePoolingLayerv2_build l sh = Inr l
      \<and> (st \<notin> {PStr ''nn'', PStr ''mat'', PStr ''cos''} \<longrightarrow>
           AttentionSequencePoolingLayerv2_call LocalActivationUnit l (QKL q k n)
             = Inl (UnboundLocalError ''attention_score''))"
  by (simp add: AttentionSequencePoolingLayerv2_init_def AttentionSequencePoolingLayerv2_build_def
      AttentionSequencePoolingLayerv2_call_def AttentionSequencePoolingLayerv2_score_def bind_def)

text \<open>The theorem at \<^verbatim>\<open>sim_type='dot'\<close>, an empty input shape and the example batch.\<close>

theorem v2_validates_nothing_before_call_witness:
  "\<exists>l. AttentionSequencePoolingLayerv2_init PNone PNone True (PStr ''dot'') = Inr l
      \<and> sim_type l = PStr ''dot''
      \<and> AttentionSequencePoolingLayerv2_build l (Shape []) = Inr l
      \<and> AttentionSequencePoolingLayerv2_call (\<lambda>h a q k. Inr k) l (QKL ex_seq ex_seq ex_len)
           = Inl (UnboundLocalError ''attention_score'')"
  using v2_validates_nothing_before_call[of PNone PNone True "PStr ''dot''" "Shape []"
          "\<lambda>h a q k. Inr k" ex_seq ex_seq ex_len]
  by simp

text \<open>
  For comparison, \<^verbatim>\<open>build\<close> of \<^verbatim>\<open>AttentionSequencePoolingLayer\<close> in explicit-length
  mode refuses an input that is not a list of three shapes.
\<close>

lemma AttentionSequencePoolingLayer_build_checks:
  "\<not> att_supports_masking l \<Longrightarrow> length ss \<noteq> 3 \<Longrightarrow>
     \<exists>msg. AttentionSequencePoolingLayer_build l (Shapes ss) = Inl (ValueError msg)"
  "\<not> att_supports_masking l \<Longrightarrow>
     \<exists>msg. AttentionSequencePoolingLayer_build l (Shape s) = Inl (ValueError msg)"
  by (simp_all add: AttentionSequencePoolingLayer_build_def)

text \<open>
  Claim C4. The configuration of \<^verbatim>\<open>AttentionSequencePoolingLayerv2\<close> leaves out the
  constructor argument \<^verbatim>\<open>sim_type\<close>: for a layer constructed with \<^verbatim>\<open>sim_type='cos'\<close> and a
  base configuration holding the layer's name and its \<^verbatim>\<open>trainable\<close> flag,
  \<^verbatim>\<open>get_config\<close> has no entry under \<^verbatim>\<open>'sim_type'\<close>.
\<close>

theorem v2_get_config_omits_sim_type:
  "AttentionSequencePoolingLayerv2_init (PTuple [PInt 80, PInt 40]) (PStr ''sigmoid'') True (PStr ''cos'')
     = Inr \<lparr> v2_hidden_size = PTuple [PInt 80, PInt 40], v2_activation = PStr ''sigmoid'',
             v2_weight_normalization = True, sim_type = PStr ''cos'' \<rparr>
   \<and> AttentionSequencePoolingLayerv2_get_config
        \<lparr> v2_hidden_size = PTuple [PInt 80, PInt 40], v2_activation = PStr ''sigmoid'',
          v2_weight_normalization = True, sim_type = PStr ''cos'' \<rparr>
        [(''name'', PStr ''attention_sequence_pooling_layerv2''), (''trainable'', PBool True)]
        ''sim_type'' = None"
  by (simp add: AttentionSequencePoolingLayerv2_init_def AttentionSequencePoolingLayerv2_get_config_def
      py_dict_def)

text \<open>
  Every other constructor argument of the four layers is in the configuration with the value
  passed; \<^verbatim>\<open>sim_type\<close> is there only if the base configuration has such a key.
\<close>

lemma get_config_of_constructed_layers:
  "SequencePoolingLayer_init m sm = Inr l1 \<Longrightarrow>
     SequencePoolingLayer_get_config l1 base ''mode'' = Some m
     \<and> SequencePoolingLayer_get_config l1 base ''supports_masking'' = Some (PBool sm)"
  "AttentionSequencePoolingLayer_init hs act wn sm = Inr l2 \<Longrightarrow>
     AttentionSequencePoolingLayer_get_config l2 base ''hidden_size'' = Some hs
     \<and> AttentionSequencePoolingLayer_get_config l2 base ''activation'' = Some act
     \<and> AttentionSequencePoolingLayer_get_config l2 base ''weight_normalization'' = Some (PBool wn)
     \<and> AttentionSequencePoolingLayer_get_config l2 base ''supports_masking'' = Some (PBool sm)"
  "BiLSTM_init u n r d mm = Inr l3 \<Longrightarrow>
     BiLSTM_get_config l3 base ''units'' = Some (PInt u)
     \<and> BiLSTM_get_config l3 base ''layers'' = Some (PInt n)
     \<and> BiLSTM_get_config l3 base ''res_layers'' = Some (PInt r)
     \<and> BiLSTM_get_config l3 base ''dropout'' = Some (PFloat d)
     \<and> BiLSTM_get_config l3 base ''merge_mode'' = Some mm"
  "AttentionSequencePoolingLayerv2_init hs act wn st = Inr l4 \<Longrightarrow>
     AttentionSequencePoolingLayerv2_get_config l4 base ''hidden_size'' = Some hs
     \<and> AttentionSequencePoolingLayerv2_get_config l4 base ''activation'' = Some act
     \<and> AttentionSequencePoolingLayerv2_get_config l4 base ''weight_normalization'' = Some (PBool wn)
     \<and> AttentionSequencePoolingLayerv2_get_config l4 base ''sim_type'' = py_dict base ''sim_type''"
  by (auto simp: SequencePoolingLayer_init_def SequencePoolingLayer_get_config_def
      AttentionSequencePoolingLayer_init_def AttentionSequencePoolingLayer_get_config_def
      BiLSTM_init_def BiLSTM_get_config_def
      AttentionSequencePoolingLayerv2_init_def AttentionSequencePoolingLayerv2_get_config_def
      py_dict_def split: if_splits)

section \<open>Mean and max pooling\<close>

lemma masked_upstream:
  assumes "n0 m = d0 seq" "n1 m = d1 seq"
  shows "\<exists>h. tf_multiply seq (tile_last (d2 seq) (expand_dims_2 (to_float2 m))) = Inr h
     \<and> d0 h = d0 seq \<and> d1 h = d1 seq \<and> d2 h = d2 seq
     \<and> (\<forall>b<d0 seq. \<forall>t<d1 seq. \<forall>e<d2 seq. el3 h b t e = (if el2 m b t then el3 seq b t e else 0))"
  using assms
  by (simp add: tf_multiply_def broadcast3_def tile_last_def expand_dims_2_def to_float2_def
      bc_ok_refl bc_dim_refl bc_ix_in)



lemma max_tail:
  assumes "0 < d1 h"
  shows "\<exists>out. reduce_max_1_keep h = Inr out
           \<and> shape3 out = [d0 h, 1, d2 h]
           \<and> (\<forall>b e. el3 out b 0 e = Max ((\<lambda>t. el3 h b t e) ` {..<d1 h}))"
  using assms
  by (simp add: reduce_max_1_keep_def shape3_def atLeast0LessThan)

lemma max_masked_pos:
  fixes f :: "nat \<Rightarrow> real"
  assumes ex: "\<exists>t<T. V t" and pos: "\<forall>t<T. V t \<longrightarrow> 0 < f t"
  shows "Max ((\<lambda>t. if V t then f t else 0) ` {..<T}) = Max (f ` {t. t < T \<and> V t})
         \<and> 0 < Max ((\<lambda>t. if V t then f t else 0) ` {..<T})"
proof -
  let ?g = "\<lambda>t. if V t then f t else 0"
  let ?S = "f ` {t. t < T \<and> V t}"
  have fin: "finite (?g ` {..<T})" by simp
  have finS: "finite ?S" by simp
  have neS: "?S \<noteq> {}" using ex by auto
  from Max_in[OF finS neS] obtain t0 where t0: "t0 < T" "V t0" "Max ?S = f t0" by auto
  have p0: "0 < f t0" using pos t0 by simp
  have "Max (?g ` {..<T}) = Max ?S"
  proof (rule Max_eqI[OF fin])
    fix y assume "y \<in> ?g ` {..<T}"
    then obtain t where t: "t < T" "y = ?g t" by auto
    show "y \<le> Max ?S"
    proof (cases "V t")
      case True
      then have "f t \<in> ?S" using t by auto
      then have "f t \<le> Max ?S" by (rule Max_ge[OF finS])
      with True t show ?thesis by simp
    next
      case False
      then have "y = 0" using t by simp
      with p0 t0 show ?thesis by simp
    qed
  next
    have "Max ?S = ?g t0" "t0 \<in> {..<T}" using t0 by simp_all
    then show "Max ?S \<in> ?g ` {..<T}" by (rule image_eqI)
  qed
  moreover have "0 < Max ?S" using t0 p0 by simp
  ultimately show ?thesis by simp
qed

lemma max_masked_same:
  fixes f :: "nat \<Rightarrow> real"
  assumes ex: "\<exists>t<T. V t" and same: "\<forall>t<T. V t \<longrightarrow> f t = v" and v: "0 < v"
  shows "Max ((\<lambda>t. if V t then f t else 0) ` {..<T}) = v"
proof (rule Max_eqI)
  show "finite ((\<lambda>t. if V t then f t else 0) ` {..<T})" by simp
next
  fix y assume "y \<in> (\<lambda>t. if V t then f t else 0) ` {..<T}"
  then obtain t where t: "t < T" "y = (if V t then f t else 0)" by auto
  show "y \<le> v"
  proof (cases "V t")
    case True
    with t same show ?thesis by simp
  next
    case False
    with t v show ?thesis by simp
  qed
next
  from ex obtain t where "t < T" "V t" by blast
  then have "v = (if V t then f t else 0)" "t \<in> {..<T}" using same by simp_all
  then show "v \<in> (\<lambda>t. if V t then f t else 0) ` {..<T}" by (rule image_eqI)
qed

lemma max_masked_neg:
  fixes f :: "nat \<Rightarrow> real"
  assumes ex: "\<exists>t<T. \<not> V t" and neg: "\<forall>t<T. V t \<longrightarrow> f t < 0"
  shows "Max ((\<lambda>t. if V t then f t else 0) ` {..<T}) = 0"
proof (rule Max_eqI)
  show "finite ((\<lambda>t. if V t then f t else 0) ` {..<T})" by simp
next
  fix y assume "y \<in> (\<lambda>t. if V t then f t else 0) ` {..<T}"
  then obtain t where t: "t < T" "y = (if V t then f t else 0)" by auto
  show "y \<le> 0"
  proof (cases "V t")
    case True
    with t neg have "y < 0" by simp
    then show ?thesis by simp
  next
    case False
    with t show ?thesis by simp
  qed
next
  from ex obtain t where "t < T" "\<not> V t" by blast
  then have "0 = (if V t then f t else 0)" "t \<in> {..<T}" by simp_all
  then show "0 \<in> (\<lambda>t. if V t then f t else 0) ` {..<T}" by (rule image_eqI)
qed

lemma upstream_built:
  assumes "SequencePoolingLayer_init m True = Inr l0"
      and "SequencePoolingLayer_build l0 sh = Inr l"
  shows "mode l = m \<and> supports_masking l \<and> eps l = 1 / 10 ^ 8
         \<and> m \<in> {PStr ''sum'', PStr ''mean'', PStr ''max''}"
  using assms
  by (auto simp: SequencePoolingLayer_init_def SequencePoolingLayer_build_def split: if_splits)







lemma max_call_explicit:
  assumes l: "mode l = PStr ''max''" "\<not> supports_masking l" "seq_len_max l = Some (d1 seq)"
      and sh: "n0 len = d0 seq" "n1 len = 1"
      and T: "0 < d1 seq"
  shows "\<exists>out. SequencePoolingLayer_call l (SeqLen seq len) mk = Inr out
           \<and> shape3 out = [d0 seq, 1, d2 seq]
           \<and> (\<forall>b<d0 seq. \<forall>e<d2 seq. el3 out b 0 e =
                 Max ((\<lambda>t. if int t < el2 len b 0 then el3 seq b t e else 0) ` {..<d1 seq}))"
proof -
  from masked_explicit[OF sh] obtain h where
    h: "tf_multiply seq (tile_last (d2 seq) (transpose_021 (to_float3 (sequence_mask len (d1 seq))))) = Inr h"
    and d: "d0 h = d0 seq" "d1 h = d1 seq" "d2 h = d2 seq"
    and e: "\<forall>b<d0 seq. \<forall>t<d1 seq. \<forall>e<d2 seq. el3 h b t e = (if int t < el2 len b 0 then el3 seq b t e else 0)"
    by blast
  have "0 < d1 h" using T d by simp
  from max_tail[OF this] obtain out where
    t: "reduce_max_1_keep h = Inr out"
    and so: "shape3 out = [d0 h, 1, d2 h]"
    and eo: "\<forall>b e. el3 out b 0 e = Max ((\<lambda>t. el3 h b t e) ` {..<d1 h})"
    by blast
  have call: "SequencePoolingLayer_call l (SeqLen seq len) mk = Inr out"
    using l h t by (simp add: SequencePoolingLayer_call_def bind_def Let_def)
  have "el3 out b 0 e = Max ((\<lambda>t. if int t < el2 len b 0 then el3 seq b t e else 0) ` {..<d1 seq})"
    if "b < d0 seq" "e < d2 seq" for b e
  proof -
    have "(\<lambda>t. el3 h b t e) ` {..<d1 h}
            = (\<lambda>t. if int t < el2 len b 0 then el3 seq b t e else 0) ` {..<d1 seq}"
      unfolding d using e that by (intro image_cong) auto
    then show ?thesis using eo by simp
  qed
  with call so d show ?thesis by simp
qed

lemma max_call_upstream:
  assumes l: "mode l = PStr ''max''" "supports_masking l"
      and sh: "n0 m = d0 seq" "n1 m = d1 seq"
      and T: "0 < d1 seq"
  shows "\<exists>out. SequencePoolingLayer_call l (SeqOnly seq) (Some m) = Inr out
           \<and> shape3 out = [d0 seq, 1, d2 seq]
           \<and> (\<forall>b<d0 seq. \<forall>e<d2 seq. el3 out b 0 e =
                 Max ((\<lambda>t. if el2 m b t then el3 seq b t e else 0) ` {..<d1 seq}))"
proof -
  from masked_upstream[OF sh] obtain h where
    h: "tf_multiply seq (tile_last (d2 seq) (expand_dims_2 (to_float2 m))) = Inr h"
    and d: "d0 h = d0 seq" "d1 h = d1 seq" "d2 h = d2 seq"
    and e: "\<forall>b<d0 seq. \<forall>t<d1 seq. \<forall>e<d2 seq. el3 h b t e = (if el2 m b t then el3 seq b t e else 0)"
    by blast
  have "0 < d1 h" using T d by simp
  from max_tail[OF this] obtain out where
    t: "reduce_max_1_keep h = Inr out"
    and so: "shape3 out = [d0 h, 1, d2 h]"
    and eo: "\<forall>b e. el3 out b 0 e = Max ((\<lambda>t. el3 h b t e) ` {..<d1 h})"
    by blast
  have call: "SequencePoolingLayer_call l (SeqOnly seq) (Some m) = Inr out"
    using l h t by (simp add: SequencePoolingLayer_call_def bind_def Let_def)
  have "el3 out b 0 e = Max ((\<lambda>t. if el2 m b t then el3 seq b t e else 0) ` {..<d1 seq})"
    if "b < d0 seq" "e < d2 seq" for b e
  proof -
    have "(\<lambda>t. el3 h b t e) ` {..<d1 h}
            = (\<lambda>t. if el2 m b t then el3 seq b t e else 0) ` {..<d1 seq}"
      unfolding d using e that by (intro image_cong) auto
    then show ?thesis using eo by simp
  qed
  with call so d show ?thesis by simp
qed

lemma valid_prefix_set:
  assumes "n \<le> int T"
  shows "{t. t < T \<and> int t < n} = {..<nat n}"
  using assms by auto






text \<open>
  Claim C7. A layer constructed with \<^verbatim>\<open>mode='max'\<close>, on a sequence tensor with at least
  one time position, returns a tensor of shape (batch, 1, embedding_dim) whose entry at row
  \<open>b\<close> and coordinate \<open>e\<close> is the maximum over the time axis of the sequence with its
  invalid positions set to zero. Consequently, for a row that has a valid position: if all
  its valid values are strictly positive, the entry is the maximum of the valid values alone
  and is strictly positive, so no zeroed position is selected; and if all its valid values
  are one positive value, the entry is that value. For a row that has an invalid position
  and only negative valid values the entry is 0: the zeroed position outranks them. The
  first part is the explicit-length mode, the second the upstream-mask mode.
\<close>

theorem max_pooling_over_zeroed_sequence:
  "(SequencePoolingLayer_init (PStr ''max'') False = Inr l0
      \<and> SequencePoolingLayer_build l0 (Shapes [shape3 seq, shape2 len]) = Inr l
      \<and> n0 len = d0 seq \<and> n1 len = 1 \<and> 0 < d1 seq \<longrightarrow>
    (\<exists>out. SequencePoolingLayer_call l (SeqLen seq len) mk = Inr out
        \<and> shape3 out = [d0 seq, 1, d2 seq]
        \<and> (\<forall>b<d0 seq. \<forall>e<d2 seq.
              el3 out b 0 e =
                Max ((\<lambda>t. if int t < el2 len b 0 then el3 seq b t e else 0) ` {..<d1 seq})
            \<and> (0 < el2 len b 0 \<and> el2 len b 0 \<le> int (d1 seq)
                 \<and> (\<forall>t<nat (el2 len b 0). 0 < el3 seq b t e) \<longrightarrow>
                   el3 out b 0 e = Max ((\<lambda>t. el3 seq b t e) ` {..<nat (el2 len b 0)})
                 \<and> 0 < el3 out b 0 e)
            \<and> (\<forall>v. 0 < el2 len b 0 \<and> el2 len b 0 \<le> int (d1 seq) \<and> 0 < v
                 \<and> (\<forall>t<nat (el2 len b 0). el3 seq b t e = v) \<longrightarrow>
                   el3 out b 0 e = v)
            \<and> (el2 len b 0 < int (d1 seq)
                 \<and> (\<forall>t<nat (el2 len b 0). el3 seq b t e < 0) \<longrightarrow>
                   el3 out b 0 e = 0))))
   \<and> (SequencePoolingLayer_init (PStr ''max'') True = Inr u0
      \<and> SequencePoolingLayer_build u0 (Shape (shape3 seq)) = Inr u
      \<and> n0 m = d0 seq \<and> n1 m = d1 seq \<and> 0 < d1 seq \<longrightarrow>
    (\<exists>out. SequencePoolingLayer_call u (SeqOnly seq) (Some m) = Inr out
        \<and> shape3 out = [d0 seq, 1, d2 seq]
        \<and> (\<forall>b<d0 seq. \<forall>e<d2 seq.
              el3 out b 0 e =
                Max ((\<lambda>t. if el2 m b t then el3 seq b t e else 0) ` {..<d1 seq})
            \<and> ((\<exists>t<d1 seq. el2 m b t)
                 \<and> (\<forall>t<d1 seq. el2 m b t \<longrightarrow> 0 < el3 seq b t e) \<longrightarrow>
                   el3 out b 0 e = Max ((\<lambda>t. el3 seq b t e) ` {t. t < d1 seq \<and> el2 m b t})
                 \<and> 0 < el3 out b 0 e)
            \<and> (\<forall>v. (\<exists>t<d1 seq. el2 m b t) \<and> 0 < v
                 \<and> (\<forall>t<d1 seq. el2 m b t \<longrightarrow> el3 seq b t e = v) \<longrightarrow>
                   el3 out b 0 e = v)
            \<and> ((\<exists>t<d1 seq. \<not> el2 m b t)
                 \<and> (\<forall>t<d1 seq. el2 m b t \<longrightarrow> el3 seq b t e < 0) \<longrightarrow>
                   el3 out b 0 e = 0))))"
proof (intro conjI impI)
  assume a: "SequencePoolingLayer_init (PStr ''max'') False = Inr l0
      \<and> SequencePoolingLayer_build l0 (Shapes [shape3 seq, shape2 len]) = Inr l
      \<and> n0 len = d0 seq \<and> n1 len = 1 \<and> 0 < d1 seq"
  from a explicit_built[of "PStr ''max''" l0 seq len l]
  have l: "mode l = PStr ''max''" "\<not> supports_masking l" "seq_len_max l = Some (d1 seq)"
    by simp_all
  from a have sh: "n0 len = d0 seq" "n1 len = 1" and T: "0 < d1 seq" by simp_all
  from max_call_explicit[OF l sh T, of mk] obtain out where
    c: "SequencePoolingLayer_call l (SeqLen seq len) mk = Inr out"
    and s: "shape3 out = [d0 seq, 1, d2 seq]"
    and e: "\<forall>b<d0 seq. \<forall>e<d2 seq. el3 out b 0 e =
                 Max ((\<lambda>t. if int t < el2 len b 0 then el3 seq b t e else 0) ` {..<d1 seq})"
    by blast
  have p1: "el3 out b 0 e = Max ((\<lambda>t. el3 seq b t e) ` {..<nat (el2 len b 0)}) \<and> 0 < el3 out b 0 e"
    if "b < d0 seq" "e < d2 seq" "0 < el2 len b 0" "el2 len b 0 \<le> int (d1 seq)"
       "\<forall>t<nat (el2 len b 0). 0 < el3 seq b t e" for b e
  proof -
    have ex: "\<exists>t<d1 seq. int t < el2 len b 0" using that(3) T by (intro exI[of _ 0]) simp
    have pos: "\<forall>t<d1 seq. int t < el2 len b 0 \<longrightarrow> 0 < el3 seq b t e" using that(5) by simp
    from max_masked_pos[of "d1 seq" "\<lambda>t. int t < el2 len b 0" "\<lambda>t. el3 seq b t e", OF ex pos]
    show ?thesis
      using e that(1,2) by (simp add: valid_prefix_set[OF that(4)])
  qed
  have p2: "el3 out b 0 e = v"
    if "b < d0 seq" "e < d2 seq" "0 < el2 len b 0" "0 < v"
       "\<forall>t<nat (el2 len b 0). el3 seq b t e = v" for b e v
  proof -
    have ex: "\<exists>t<d1 seq. int t < el2 len b 0" using that(3) T by (intro exI[of _ 0]) simp
    have same: "\<forall>t<d1 seq. int t < el2 len b 0 \<longrightarrow> el3 seq b t e = v" using that(5) by simp
    from max_masked_same[of "d1 seq" "\<lambda>t. int t < el2 len b 0" "\<lambda>t. el3 seq b t e", OF ex same that(4)]
    show ?thesis using e that(1,2) by simp
  qed
  have p3: "el3 out b 0 e = 0"
    if "b < d0 seq" "e < d2 seq" "el2 len b 0 < int (d1 seq)"
       "\<forall>t<nat (el2 len b 0). el3 seq b t e < 0" for b e
  proof -
    have ex: "\<exists>t<d1 seq. \<not> int t < el2 len b 0"
    proof (cases "0 \<le> el2 len b 0")
      case True
      with that(3) show ?thesis by (intro exI[of _ "nat (el2 len b 0)"]) simp
    next
      case False
      with T show ?thesis by (intro exI[of _ 0]) simp
    qed
    have neg: "\<forall>t<d1 seq. int t < el2 len b 0 \<longrightarrow> el3 seq b t e < 0" using that(4) by simp
    from max_masked_neg[of "d1 seq" "\<lambda>t. int t < el2 len b 0" "\<lambda>t. el3 seq b t e", OF ex neg]
    show ?thesis using e that(1,2) by simp
  qed
  from c s e p1 p2 p3
  show "\<exists>out. SequencePoolingLayer_call l (SeqLen seq len) mk = Inr out
        \<and> shape3 out = [d0 seq, 1, d2 seq]
        \<and> (\<forall>b<d0 seq. \<forall>e<d2 seq.
              el3 out b 0 e =
                Max ((\<lambda>t. if int t < el2 len b 0 then el3 seq b t e else 0) ` {..<d1 seq})
            \<and> (0 < el2 len b 0 \<and> el2 len b 0 \<le> int (d1 seq)
                 \<and> (\<forall>t<nat (el2 len b 0). 0 < el3 seq b t e) \<longrightarrow>
                   el3 out b 0 e = Max ((\<lambda>t. el3 seq b t e) ` {..<nat (el2 len b 0)})
                 \<and> 0 < el3 out b 0 e)
            \<and> (\<forall>v. 0 < el2 len b 0 \<and> el2 len b 0 \<le> int (d1 seq) \<and> 0 < v
                 \<and> (\<forall>t<nat (el2 len b 0). el3 seq b t e = v) \<longrightarrow>
                   el3 out b 0 e = v)
            \<and> (el2 len b 0 < int (d1 seq)
                 \<and> (\<forall>t<nat (el2 len b 0). el3 seq b t e < 0) \<longrightarrow>
                   el3 out b 0 e = 0))"
    by (intro exI[of _ out]) blast
next
  assume a: "SequencePoolingLayer_init (PStr ''max'') True = Inr u0
      \<and> SequencePoolingLayer_build u0 (Shape (shape3 seq)) = Inr u
      \<and> n0 m = d0 seq \<and> n1 m = d1 seq \<and> 0 < d1 seq"
  from a upstream_built[of "PStr ''max''" u0 "Shape (shape3 seq)" u]
  have l: "mode u = PStr ''max''" "supports_masking u"
    by simp_all
  from a have sh: "n0 m = d0 seq" "n1 m = d1 seq" and T: "0 < d1 seq" by simp_all
  from max_call_upstream[OF l sh T] obtain out where
    c: "SequencePoolingLayer_call u (SeqOnly seq) (Some m) = Inr out"
    and s: "shape3 out = [d0 seq, 1, d2 seq]"
    and e: "\<forall>b<d0 seq. \<forall>e<d2 seq. el3 out b 0 e =
                 Max ((\<lambda>t. if el2 m b t then el3 seq b t e else 0) ` {..<d1 seq})"
    by blast
  have p1: "el3 out b 0 e = Max ((\<lambda>t. el3 seq b t e) ` {t. t < d1 seq \<and> el2 m b t})
              \<and> 0 < el3 out b 0 e"
    if "b < d0 seq" "e < d2 seq" "\<exists>t<d1 seq. el2 m b t"
       "\<forall>t<d1 seq. el2 m b t \<longrightarrow> 0 < el3 seq b t e" for b e
    using max_masked_pos[of "d1 seq" "\<lambda>t. el2 m b t" "\<lambda>t. el3 seq b t e", OF that(3,4)]
      e that(1,2) by simp
  have p2: "el3 out b 0 e = v"
    if "b < d0 seq" "e < d2 seq" "\<exists>t<d1 seq. el2 m b t" "0 < v"
       "\<forall>t<d1 seq. el2 m b t \<longrightarrow> el3 seq b t e = v" for b e v
    using max_masked_same[of "d1 seq" "\<lambda>t. el2 m b t" "\<lambda>t. el3 seq b t e", OF that(3,5,4)]
      e that(1,2) by simp
  have p3: "el3 out b 0 e = 0"
    if "b < d0 seq" "e < d2 seq" "\<exists>t<d1 seq. \<not> el2 m b t"
       "\<forall>t<d1 seq. el2 m b t \<longrightarrow> el3 seq b t e < 0" for b e
    using max_masked_neg[of "d1 seq" "\<lambda>t. el2 m b t" "\<lambda>t. el3 seq b t e", OF that(3,4)]
      e that(1,2) by simp
  from c s e p1 p2 p3
  show "\<exists>out. SequencePoolingLayer_call u (SeqOnly seq) (Some m) = Inr out
        \<and> shape3 out = [d0 seq, 1, d2 seq]
        \<and> (\<forall>b<d0 seq. \<forall>e<d2 seq.
              el3 out b 0 e =
                Max ((\<lambda>t. if el2 m b t then el3 seq b t e else 0) ` {..<d1 seq})
            \<and> ((\<exists>t<d1 seq. el2 m b t)
                 \<and> (\<forall>t<d1 seq. el2 m b t \<longrightarrow> 0 < el3 seq b t e) \<longrightarrow>
                   el3 out b 0 e = Max ((\<lambda>t. el3 seq b t e) ` {t. t < d1 seq \<and> el2 m b t})
                 \<and> 0 < el3 out b 0 e)
            \<and> (\<forall>v. (\<exists>t<d1 seq. el2 m b t) \<and> 0 < v
                 \<and> (\<forall>t<d1 seq. el2 m b t \<longrightarrow> el3 seq b t e = v) \<longrightarrow>
                   el3 out b 0 e = v)
            \<and> ((\<exists>t<d1 seq. \<not> el2 m b t)
                 \<and> (\<forall>t<d1 seq. el2 m b t \<longrightarrow> el3 seq b t e < 0) \<longrightarrow>
                   el3 out b 0 e = 0))"
    by (intro exI[of _ out]) blast
qed

lemma ex_neg_dims:
  "d0 ex_neg = 2" "d1 ex_neg = 2" "d2 ex_neg = 1" "shape3 ex_neg = [2, 2, 1]"
  "n0 ex_len12 = 2" "n1 ex_len12 = 1" "shape2 ex_len12 = [2, 1]"
  "n0 ex_mask2 = 2" "n1 ex_mask2 = 2"
  "el2 ex_len12 0 0 = 1" "el2 ex_len12 1 0 = 2" "el2 ex_len12 (Suc 0) 0 = 2"
  by (simp_all add: ex_neg_def ex_len12_def ex_mask2_def of_rows3_def of_rows2_def
      shape3_def shape2_def)

lemma ex_neg_rows:
  "\<forall>t<Suc 0. el3 ex_neg 0 t 0 < 0" "\<forall>t<2. el3 ex_neg 1 t 0 = 7"
  by (auto simp: ex_neg_def of_rows3_def less_Suc_eq eval_nat_numeral)

text \<open>
  The theorem at the second example batch, in both modes: row 0 (a negative value, then
  padding) pools to 0 and row 1 (the value 7 twice) pools to 7.
\<close>

theorem max_pooling_over_zeroed_sequence_witness:
  "(\<exists>out. SequencePoolingLayer_call
             \<lparr> mode = PStr ''max'', eps = 1 / 10 ^ 8, supports_masking = False, seq_len_max = Some 2 \<rparr>
             (SeqLen ex_neg ex_len12) None = Inr out
         \<and> shape3 out = [2, 1, 1]
         \<and> el3 out 0 0 0 = 0
         \<and> el3 out 1 0 0 = 7)
   \<and> (\<exists>out. SequencePoolingLayer_call
             \<lparr> mode = PStr ''max'', eps = 1 / 10 ^ 8, supports_masking = True, seq_len_max = None \<rparr>
             (SeqOnly ex_neg) (Some ex_mask2) = Inr out
         \<and> shape3 out = [2, 1, 1]
         \<and> el3 out 0 0 0 = 0
         \<and> el3 out 1 0 0 = 7)"
proof -
  let ?new = "\<lparr> mode = PStr ''max'', eps = 1 / 10 ^ 8, supports_masking = False, seq_len_max = None \<rparr>"
  let ?built = "\<lparr> mode = PStr ''max'', eps = 1 / 10 ^ 8, supports_masking = False, seq_len_max = Some 2 \<rparr>"
  let ?up = "\<lparr> mode = PStr ''max'', eps = 1 / 10 ^ 8, supports_masking = True, seq_len_max = None \<rparr>"
  note inst = max_pooling_over_zeroed_sequence[of ?new ex_neg ex_len12 ?built None ?up ?up ex_mask2]
  have pre1: "SequencePoolingLayer_init (PStr ''max'') False = Inr ?new
      \<and> SequencePoolingLayer_build ?new (Shapes [shape3 ex_neg, shape2 ex_len12]) = Inr ?built
      \<and> n0 ex_len12 = d0 ex_neg \<and> n1 ex_len12 = 1 \<and> 0 < d1 ex_neg"
    by (simp add: SequencePoolingLayer_init_def SequencePoolingLayer_build_def ex_neg_dims)
  have pre2: "SequencePoolingLayer_init (PStr ''max'') True = Inr ?up
      \<and> SequencePoolingLayer_build ?up (Shape (shape3 ex_neg)) = Inr ?up
      \<and> n0 ex_mask2 = d0 ex_neg \<and> n1 ex_mask2 = d1 ex_neg \<and> 0 < d1 ex_neg"
    by (simp add: SequencePoolingLayer_init_def SequencePoolingLayer_build_def ex_neg_dims)
  from inst[THEN conjunct1, rule_format, OF pre1] obtain out where
    c: "SequencePoolingLayer_call ?built (SeqLen ex_neg ex_len12) None = Inr out"
    and s: "shape3 out = [d0 ex_neg, 1, d2 ex_neg]"
    and p2: "\<forall>b<d0 ex_neg. \<forall>e<d2 ex_neg. \<forall>v. 0 < el2 ex_len12 b 0 \<and> el2 ex_len12 b 0 \<le> int (d1 ex_neg) \<and> 0 < v
                 \<and> (\<forall>t<nat (el2 ex_len12 b 0). el3 ex_neg b t e = v) \<longrightarrow>
                   el3 out b 0 e = v"
    and p3: "\<forall>b<d0 ex_neg. \<forall>e<d2 ex_neg. el2 ex_len12 b 0 < int (d1 ex_neg)
                 \<and> (\<forall>t<nat (el2 ex_len12 b 0). el3 ex_neg b t e < 0) \<longrightarrow>
                   el3 out b 0 e = 0"
    by blast
  have r0: "el3 out 0 0 0 = 0"
    using p3[rule_format, of 0 0] ex_neg_rows by (simp add: ex_neg_dims)
  have r1: "el3 out 1 0 0 = 7"
    using p2[rule_format, of 1 0 7] ex_neg_rows by (simp add: ex_neg_dims)
  from inst[THEN conjunct2, rule_format, OF pre2] obtain out2 where
    c2: "SequencePoolingLayer_call ?up (SeqOnly ex_neg) (Some ex_mask2) = Inr out2"
    and s2: "shape3 out2 = [d0 ex_neg, 1, d2 ex_neg]"
    and q2: "\<forall>b<d0 ex_neg. \<forall>e<d2 ex_neg. \<forall>v. (\<exists>t<d1 ex_neg. el2 ex_mask2 b t) \<and> 0 < v
                 \<and> (\<forall>t<d1 ex_neg. el2 ex_mask2 b t \<longrightarrow> el3 ex_neg b t e = v) \<longrightarrow>
                   el3 out2 b 0 e = v"
    and q3: "\<forall>b<d0 ex_neg. \<forall>e<d2 ex_neg. (\<exists>t<d1 ex_neg. \<not> el2 ex_mask2 b t)
                 \<and> (\<forall>t<d1 ex_neg. el2 ex_mask2 b t \<longrightarrow> el3 ex_neg b t e < 0) \<longrightarrow>
                   el3 out2 b 0 e = 0"
    by blast
  have "\<exists>t<2. \<not> el2 ex_mask2 0 t"
    by (intro exI[of _ 1]) (simp add: ex_mask2_def)
  moreover have "\<forall>t<2. el2 ex_mask2 0 t \<longrightarrow> el3 ex_neg 0 t 0 < 0"
    using ex_neg_rows(1) by (simp add: ex_mask2_def)
  ultimately have t0: "el3 out2 0 0 0 = 0"
    using q3[rule_format, of 0 0] by (simp add: ex_neg_dims)
  have "\<exists>t<2. el2 ex_mask2 1 t"
    by (intro exI[of _ 0]) (simp add: ex_mask2_def)
  then have t1: "el3 out2 1 0 0 = 7"
    using q2[rule_format, of 1 0 7] ex_neg_rows(2) by (simp add: ex_neg_dims)
  from c s r0 r1 c2 s2 t0 t1 show ?thesis
    by (simp add: ex_neg_dims)
qed

section \<open>Attention pooling\<close>

lemma filled_scores:
  assumes "shape3 s = [d0 k, d1 k, 1]" "n0 n = d0 k" "n1 n = 1"
      and "shape3 pad = [d0 k, 1, d1 k]"
  shows "\<exists>f. tf_where (sequence_mask n (d1 k)) (transpose_021 s) pad = Inr f
           \<and> shape3 f = [d0 k, 1, d1 k]
           \<and> (\<forall>b i t. el3 f b i t = (if int t < el2 n b i then el3 s b t i else el3 pad b i t))"
  using assms
  by (simp add: tf_where_def sequence_mask_def transpose_021_def shape3_def)

lemma softmax_entries:
  "shape3 (softmax x) = shape3 x"
  "el3 (softmax x) b i t = exp (el3 x b i t) / (\<Sum>u<d2 x. exp (el3 x b i u))"
  by (simp_all add: softmax_def shape3_def sum_list_map_upt)

lemma exp_sum_pos:
  fixes x :: "nat \<Rightarrow> real"
  assumes "0 < T"
  shows "0 < (\<Sum>u<T. exp (x u))"
  using assms by (intro sum_pos) auto

lemma softmax_sums_to_one:
  fixes x :: "nat \<Rightarrow> real"
  assumes "0 < T"
  shows "(\<Sum>t<T. exp (x t) / (\<Sum>u<T. exp (x u))) = 1"
proof -
  have "(\<Sum>t<T. exp (x t) / (\<Sum>u<T. exp (x u))) = (\<Sum>t<T. exp (x t)) / (\<Sum>u<T. exp (x u))"
    by (rule sum_divide_distrib[symmetric])
  also have "\<dots> = 1"
    using exp_sum_pos[OF assms, of x] by simp
  finally show ?thesis .
qed

lemma softmax_ratio:
  fixes x :: "nat \<Rightarrow> real"
  shows "exp (x t) / (\<Sum>u<T. exp (x u)) = exp (x j) / (\<Sum>u<T. exp (x u)) * exp (x t - x j)"
  by (simp add: exp_diff)

lemma softmax_uniform:
  fixes x :: "nat \<Rightarrow> real"
  assumes "t < T" "\<forall>u<T. x u = c"
  shows "exp (x t) / (\<Sum>u<T. exp (x u)) = 1 / real T"
proof -
  have "(\<Sum>u<T. exp (x u)) = (\<Sum>u<T. exp c)"
    using assms(2) by (intro sum.cong) auto
  also have "\<dots> = real T * exp c" by simp
  finally show ?thesis using assms by simp
qed

lemma att_weights_explicit:
  assumes l: "\<not> att_supports_masking l"
      and s: "LocalActivationUnit (hidden_size l) (activation l) q k = Inr s"
             "shape3 s = [d0 k, d1 k, 1]"
      and n: "n0 n = d0 k" "n1 n = 1"
  shows "\<exists>f. AttentionSequencePoolingLayer_weights LocalActivationUnit l (QKL q k n) mk
               = Inr (if weight_normalization l then softmax f else f, k)
           \<and> shape3 f = [d0 k, 1, d1 k]
           \<and> (\<forall>b i t. el3 f b i t =
                 (if int t < el2 n b i then el3 s b t i
                  else if weight_normalization l then - (2 ^ 32) + 1 else 0))"
proof -
  let ?pad = "if weight_normalization l
              then scalar_mul (ones_like (transpose_021 s)) (- (2 ^ 32) + 1)
              else zeros_like (transpose_021 s)"
  have p: "shape3 ?pad = [d0 k, 1, d1 k]"
    using s(2) by (simp add: shape3_def scalar_mul_def ones_like_def zeros_like_def transpose_021_def)
  have pv: "el3 ?pad b i t = (if weight_normalization l then - (2 ^ 32) + 1 else 0)" for b i t
    by (simp add: scalar_mul_def ones_like_def zeros_like_def)
  from filled_scores[OF s(2) n p] obtain f where
    f: "tf_where (sequence_mask n (d1 k)) (transpose_021 s) ?pad = Inr f"
    and fs: "shape3 f = [d0 k, 1, d1 k]"
    and fe: "\<forall>b i t. el3 f b i t = (if int t < el2 n b i then el3 s b t i else el3 ?pad b i t)"
    by blast
  have "AttentionSequencePoolingLayer_weights LocalActivationUnit l (QKL q k n) mk
               = Inr (if weight_normalization l then softmax f else f, k)"
    using l s(1) f by (simp add: AttentionSequencePoolingLayer_weights_def bind_def Let_def)
  moreover have "\<forall>b i t. el3 f b i t =
                 (if int t < el2 n b i then el3 s b t i
                  else if weight_normalization l then - (2 ^ 32) + 1 else 0)"
    by (simp only: fe[rule_format] pv) blast
  ultimately show ?thesis using fs by blast
qed

lemma matmul_weights:
  assumes "shape3 w = [d0 k, 1, d1 k]"
  shows "\<exists>out. tf_matmul w k = Inr out \<and> shape3 out = [d0 k, 1, d2 k]
           \<and> (\<forall>b i e. el3 out b i e = (\<Sum>t<d1 k. el3 w b i t * el3 k b t e))"
  using assms by (simp add: tf_matmul_def shape3_def sum_list_map_upt)

lemma v2_call_explicit:
  assumes s: "AttentionSequencePoolingLayerv2_score LocalActivationUnit l q k = Inr s"
             "shape3 s = [d0 k, d1 k, 1]"
      and n: "n0 n = d0 k" "n1 n = 1"
      and E: "0 < d2 k"
  shows "\<exists>g. AttentionSequencePoolingLayerv2_call LocalActivationUnit l (QKL q k n)
               = Inr (if v2_weight_normalization l then softmax g else g)
           \<and> shape3 g = [d0 k, 1, d1 k]
           \<and> (\<forall>b i t. el3 g b i t =
                 (if int t < el2 n b i then el3 s b t i
                  else if v2_weight_normalization l then - (2 ^ 32) + 1 else 0)
                 / sqrt (real (d2 k)))"
proof -
  let ?pad = "if v2_weight_normalization l
              then scalar_mul (ones_like (transpose_021 s)) (- (2 ^ 32) + 1)
              else zeros_like (transpose_021 s)"
  have p: "shape3 ?pad = [d0 k, 1, d1 k]"
    using s(2) by (simp add: shape3_def scalar_mul_def ones_like_def zeros_like_def transpose_021_def)
  have pv: "el3 ?pad b i t = (if v2_weight_normalization l then - (2 ^ 32) + 1 else 0)" for b i t
    by (simp add: scalar_mul_def ones_like_def zeros_like_def)
  from filled_scores[OF s(2) n p] obtain f where
    f: "tf_where (sequence_mask n (d1 k)) (transpose_021 s) ?pad = Inr f"
    and fs: "shape3 f = [d0 k, 1, d1 k]"
    and fe: "\<forall>b i t. el3 f b i t = (if int t < el2 n b i then el3 s b t i else el3 ?pad b i t)"
    by blast
  let ?g = "Tensor3 (d0 f) (d1 f) (d2 f) (\<lambda>b i j. el3 f b i j / sqrt (real (d2 k)))"
  have nz: "sqrt (real (d2 k)) \<noteq> 0" using E by simp
  have d: "scalar_div f (sqrt (real (d2 k))) = Inr ?g"
    using nz by (simp add: scalar_div_def)
  have "AttentionSequencePoolingLayerv2_call LocalActivationUnit l (QKL q k n)
               = Inr (if v2_weight_normalization l then softmax ?g else ?g)"
    using s(1) f d by (simp add: AttentionSequencePoolingLayerv2_call_def bind_def Let_def)
  moreover have "shape3 ?g = [d0 k, 1, d1 k]"
    using fs by (simp add: shape3_def)
  moreover have "\<forall>b i t. el3 ?g b i t =
                 (if int t < el2 n b i then el3 s b t i
                  else if v2_weight_normalization l then - (2 ^ 32) + 1 else 0)
                 / sqrt (real (d2 k))"
    by (simp only: tensor3.sel fe[rule_format] pv) blast
  ultimately show ?thesis by blast
qed

lemma att_built:
  assumes "AttentionSequencePoolingLayer_init hs act wn sm = Inr l"
  shows "hidden_size l = hs" "activation l = act" "weight_normalization l = wn"
        "att_supports_masking l = sm"
  using assms by (auto simp: AttentionSequencePoolingLayer_init_def)

text \<open>
  Claim C2, as amended. In explicit-length mode, with the scoring network any function that
  returns a score tensor \<open>s\<close> of shape (batch, T, 1): the scores \<open>f\<close> after the masked
  fill are the raw scores at the valid positions and, at the positions where the key mask
  is false, \<open>-2^32+1\<close> when \<^verbatim>\<open>weight_normalization\<close> is true and 0 when it is false;
  the weights \<open>w\<close> that enter the final matrix product with the keys are \<open>softmax f\<close>
  when \<^verbatim>\<open>weight_normalization\<close> is true and \<open>f\<close> itself when it is false. When it is
  true, the weights of every row are positive and sum to 1 over all T time positions, valid
  and invalid together (T at least 1); the weight of an invalid position is
  \<open>exp (-2^32+1 - s)\<close> times the weight of a valid position of raw score \<open>s\<close>, hence at
  most \<open>exp (-2^32+1 - s)\<close>; and in a row with no valid position every position has
  weight 1/T.
\<close>

theorem attention_weights_masked_and_normalised:
  assumes init: "AttentionSequencePoolingLayer_init hs act wn False = Inr l"
      and sc: "LocalActivationUnit hs act q k = Inr s" "shape3 s = [d0 k, d1 k, 1]"
      and n: "n0 n = d0 k" "n1 n = 1"
  shows "\<exists>f w out.
           AttentionSequencePoolingLayer_weights LocalActivationUnit l (QKL q k n) mk = Inr (w, k)
         \<and> AttentionSequencePoolingLayer_call LocalActivationUnit l (QKL q k n) mk = Inr out
         \<and> tf_matmul w k = Inr out
         \<and> shape3 f = [d0 k, 1, d1 k]
         \<and> (\<forall>b<d0 k. \<forall>t<d1 k. el3 f b 0 t =
               (if int t < el2 n b 0 then el3 s b t 0 else if wn then - (2 ^ 32) + 1 else 0))
         \<and> w = (if wn then softmax f else f)
         \<and> (wn \<longrightarrow> (\<forall>b<d0 k.
                 (\<forall>t<d1 k. 0 < el3 w b 0 t)
               \<and> (0 < d1 k \<longrightarrow> (\<Sum>t<d1 k. el3 w b 0 t) = 1)
               \<and> (\<forall>t<d1 k. \<forall>j<d1 k. \<not> int t < el2 n b 0 \<and> int j < el2 n b 0 \<longrightarrow>
                     el3 w b 0 t = el3 w b 0 j * exp (- (2 ^ 32) + 1 - el3 s b j 0)
                   \<and> el3 w b 0 t \<le> exp (- (2 ^ 32) + 1 - el3 s b j 0))
               \<and> (el2 n b 0 \<le> 0 \<longrightarrow> (\<forall>t<d1 k. el3 w b 0 t = 1 / real (d1 k)))))"
proof -
  note lf = att_built[OF init]
  have l: "\<not> att_supports_masking l" using lf by simp
  have sc': "LocalActivationUnit (hidden_size l) (activation l) q k = Inr s" using lf sc by simp
  from att_weights_explicit[of l LocalActivationUnit q k s n mk, OF l sc' sc(2) n] obtain f where
    w: "AttentionSequencePoolingLayer_weights LocalActivationUnit l (QKL q k n) mk
               = Inr (if wn then softmax f else f, k)"
    and fs: "shape3 f = [d0 k, 1, d1 k]"
    and fe: "\<forall>b i t. el3 f b i t =
                 (if int t < el2 n b i then el3 s b t i else if wn then - (2 ^ 32) + 1 else 0)"
    unfolding lf by blast
  define w where "w = (if wn then softmax f else f)"
  have ws: "shape3 w = [d0 k, 1, d1 k]"
    using fs by (simp add: w_def softmax_entries)
  from matmul_weights[OF ws] obtain out where
    m: "tf_matmul w k = Inr out" by blast
  have c: "AttentionSequencePoolingLayer_call LocalActivationUnit l (QKL q k n) mk = Inr out"
    using w m by (simp add: AttentionSequencePoolingLayer_call_def bind_def w_def)
  have T: "d2 f = d1 k" using fs by (simp add: shape3_def)
  have norm: "(\<forall>t<d1 k. 0 < el3 w b 0 t)
               \<and> (0 < d1 k \<longrightarrow> (\<Sum>t<d1 k. el3 w b 0 t) = 1)
               \<and> (\<forall>t<d1 k. \<forall>j<d1 k. \<not> int t < el2 n b 0 \<and> int j < el2 n b 0 \<longrightarrow>
                     el3 w b 0 t = el3 w b 0 j * exp (- (2 ^ 32) + 1 - el3 s b j 0)
                   \<and> el3 w b 0 t \<le> exp (- (2 ^ 32) + 1 - el3 s b j 0))
               \<and> (el2 n b 0 \<le> 0 \<longrightarrow> (\<forall>t<d1 k. el3 w b 0 t = 1 / real (d1 k)))"
    if wn: wn for b
  proof -
    let ?x = "\<lambda>t. el3 f b 0 t"
    let ?Z = "\<Sum>u<d1 k. exp (?x u)"
    have we: "el3 w b 0 t = exp (?x t) / ?Z" for t
      using wn T by (simp add: w_def softmax_entries)
    have pos: "0 < el3 w b 0 t" if "t < d1 k" for t
    proof -
      have "0 < ?Z" using that by (intro exp_sum_pos) simp
      then show ?thesis unfolding we by simp
    qed
    have one: "(\<Sum>t<d1 k. el3 w b 0 t) = 1" if "0 < d1 k"
      unfolding we using softmax_sums_to_one[OF that, of ?x] .
    have le1: "el3 w b 0 j \<le> 1" if "j < d1 k" for j
    proof -
      have "el3 w b 0 j \<le> (\<Sum>t<d1 k. el3 w b 0 t)"
        using that pos by (intro member_le_sum) (auto intro: less_imp_le)
      also have "\<dots> = 1" using that one by simp
      finally show ?thesis .
    qed
    have ratio: "el3 w b 0 t = el3 w b 0 j * exp (- (2 ^ 32) + 1 - el3 s b j 0)
                   \<and> el3 w b 0 t \<le> exp (- (2 ^ 32) + 1 - el3 s b j 0)"
      if "t < d1 k" "j < d1 k" "\<not> int t < el2 n b 0" "int j < el2 n b 0" for t j
    proof -
      have xt: "?x t = - (2 ^ 32) + 1" and xj: "?x j = el3 s b j 0"
        using that(3,4) wn by (simp_all only: fe[rule_format] if_True if_False)
      have eq: "el3 w b 0 t = el3 w b 0 j * exp (?x t - ?x j)"
        unfolding we by (rule softmax_ratio)
      have "el3 w b 0 j * exp (?x t - ?x j) \<le> 1 * exp (?x t - ?x j)"
        using le1[OF that(2)] by (intro mult_right_mono) simp_all
      with eq show ?thesis unfolding xt xj by simp
    qed
    have unif: "el3 w b 0 t = 1 / real (d1 k)" if "el2 n b 0 \<le> 0" "t < d1 k" for t
    proof -
      have "\<not> int u < el2 n b 0" for u
        using that(1) by simp
      then have "\<forall>u<d1 k. ?x u = - (2 ^ 32) + 1"
        using wn by (simp only: fe[rule_format] if_True if_False) simp
      from softmax_uniform[OF that(2) this] show ?thesis unfolding we .
    qed
    show ?thesis
    proof (intro conjI allI impI)
      fix t assume "t < d1 k" then show "0 < el3 w b 0 t" by (rule pos)
    next
      assume "0 < d1 k" then show "(\<Sum>t<d1 k. el3 w b 0 t) = 1" by (rule one)
    next
      fix t j assume "t < d1 k" "j < d1 k" "\<not> int t < el2 n b 0 \<and> int j < el2 n b 0"
      then show "el3 w b 0 t = el3 w b 0 j * exp (- (2 ^ 32) + 1 - el3 s b j 0)"
        using ratio[of t j] by blast
    next
      fix t j assume "t < d1 k" "j < d1 k" "\<not> int t < el2 n b 0 \<and> int j < el2 n b 0"
      then show "el3 w b 0 t \<le> exp (- (2 ^ 32) + 1 - el3 s b j 0)"
        using ratio[of t j] by blast
    next
      fix t assume "el2 n b 0 \<le> 0" "t < d1 k"
      then show "el3 w b 0 t = 1 / real (d1 k)" by (rule unif)
    qed
  qed
  have fe0: "\<forall>b<d0 k. \<forall>t<d1 k. el3 f b 0 t =
               (if int t < el2 n b 0 then el3 s b t 0 else if wn then - (2 ^ 32) + 1 else 0)"
    using fe by blast
  have ww: "AttentionSequencePoolingLayer_weights LocalActivationUnit l (QKL q k n) mk = Inr (w, k)"
    using w by (simp only: w_def)
  show ?thesis
  proof (rule exI[of _ f], rule exI[of _ w], rule exI[of _ out], intro conjI)
    show "AttentionSequencePoolingLayer_weights LocalActivationUnit l (QKL q k n) mk = Inr (w, k)"
      by (rule ww)
    show "AttentionSequencePoolingLayer_call LocalActivationUnit l (QKL q k n) mk = Inr out"
      by (rule c)
    show "tf_matmul w k = Inr out" by (rule m)
    show "shape3 f = [d0 k, 1, d1 k]" by (rule fs)
    show "\<forall>b<d0 k. \<forall>t<d1 k. el3 f b 0 t =
               (if int t < el2 n b 0 then el3 s b t 0 else if wn then - (2 ^ 32) + 1 else 0)"
      by (rule fe0)
    show "w = (if wn then softmax f else f)" by (rule w_def)
    show "wn \<longrightarrow> (\<forall>b<d0 k.
                 (\<forall>t<d1 k. 0 < el3 w b 0 t)
               \<and> (0 < d1 k \<longrightarrow> (\<Sum>t<d1 k. el3 w b 0 t) = 1)
               \<and> (\<forall>t<d1 k. \<forall>j<d1 k. \<not> int t < el2 n b 0 \<and> int j < el2 n b 0 \<longrightarrow>
                     el3 w b 0 t = el3 w b 0 j * exp (- (2 ^ 32) + 1 - el3 s b j 0)
                   \<and> el3 w b 0 t \<le> exp (- (2 ^ 32) + 1 - el3 s b j 0))
               \<and> (el2 n b 0 \<le> 0 \<longrightarrow> (\<forall>t<d1 k. el3 w b 0 t = 1 / real (d1 k))))"
      using norm by (intro impI allI) (rule norm)
  qed
qed

lemma ex_att_dims:
  "d0 ex_seq = 2" "d1 ex_seq = 4" "d2 ex_seq = 3"
  "n0 ex_len0 = 2" "n1 ex_len0 = 1" "el2 ex_len0 0 0 = 0" "el2 ex_len0 (Suc 0) 0 = 4"
  "n0 ex_len = 2" "n1 ex_len = 1" "el2 ex_len 0 0 = 2" "el2 ex_len (Suc 0) 0 = 4"
  by (simp_all add: ex_seq_def ex_len0_def ex_len_def of_rows3_def of_rows2_def)

lemma ex_lau_score:
  "ex_lau hs act q ex_seq = Inr (Tensor3 2 4 1 (\<lambda>b t i. el3 ex_seq b t 0))"
  "shape3 (Tensor3 2 4 1 (\<lambda>b t i. el3 ex_seq b t 0)) = [d0 ex_seq, d1 ex_seq, 1]"
  by (simp_all add: ex_lau_def ex_att_dims shape3_def)

text \<open>
  Claim C2 as stated fails on a row of length 0. In the first example batch with lengths 0
  and 4 and \<^verbatim>\<open>weight_normalization=True\<close>, all four positions of row 0 are invalid and
  each gets the weight 1/4: the weights over the valid positions of the row sum to 0, not
  to 1, and the weight on an invalid position is far above the single-precision machine
  epsilon \<open>2^-23\<close>.
\<close>

theorem attention_weights_empty_row_counterexample:
  "(case AttentionSequencePoolingLayer_weights ex_lau
           \<lparr> hidden_size = PNone, activation = PNone, weight_normalization = True,
             att_supports_masking = False \<rparr>
           (QKL ex_query ex_seq ex_len0) None of
      Inl e \<Rightarrow> False
    | Inr (w, k) \<Rightarrow>
        el2 ex_len0 0 0 = 0
      \<and> el3 w 0 0 0 = 1 / 4 \<and> el3 w 0 0 1 = 1 / 4 \<and> el3 w 0 0 2 = 1 / 4 \<and> el3 w 0 0 3 = 1 / 4
      \<and> (\<Sum>t<4. if int t < el2 ex_len0 0 0 then el3 w 0 0 t else 0) = 0
      \<and> 1 / 2 ^ 23 < el3 w 0 0 0)"
proof -
  let ?l = "\<lparr> hidden_size = PNone, activation = PNone, weight_normalization = True,
              att_supports_masking = False \<rparr>"
  let ?s = "Tensor3 2 4 1 (\<lambda>b t i. el3 ex_seq b t 0)"
  have l: "\<not> att_supports_masking ?l" by simp
  have sc: "ex_lau (hidden_size ?l) (activation ?l) ex_query ex_seq = Inr ?s"
    by (rule ex_lau_score)
  have n: "n0 ex_len0 = d0 ex_seq" "n1 ex_len0 = 1" by (simp_all add: ex_att_dims)
  from att_weights_explicit[of ?l ex_lau ex_query ex_seq ?s ex_len0 None, OF l sc ex_lau_score(2) n]
  obtain f where
    w: "AttentionSequencePoolingLayer_weights ex_lau ?l (QKL ex_query ex_seq ex_len0) None
          = Inr (softmax f, ex_seq)"
    and fs: "shape3 f = [d0 ex_seq, 1, d1 ex_seq]"
    and fe: "\<forall>b i t. el3 f b i t =
               (if int t < el2 ex_len0 b i then el3 ?s b t i else - (2 ^ 32) + 1)"
    by auto
  have T: "d2 f = 4" using fs by (simp add: shape3_def ex_att_dims)
  have x: "\<forall>u<4. el3 f 0 0 u = - (2 ^ 32) + 1"
    using fe by (simp add: ex_att_dims)
  have u: "el3 (softmax f) 0 0 t = 1 / 4" if "t < 4" for t
    using softmax_uniform[OF that x] by (simp add: softmax_entries T)
  show ?thesis
    unfolding w by (simp add: u ex_att_dims)
qed

text \<open>
  The amended theorem at the same inputs: the weights of row 1 (length 4) sum to 1, and the
  first weight of row 0 (length 0) is 1/4.
\<close>

theorem attention_weights_masked_and_normalised_witness:
  "\<exists>w out.
      AttentionSequencePoolingLayer_weights ex_lau
        \<lparr> hidden_size = PNone, activation = PNone, weight_normalization = True,
          att_supports_masking = False \<rparr>
        (QKL ex_query ex_seq ex_len0) None = Inr (w, ex_seq)
    \<and> AttentionSequencePoolingLayer_call ex_lau
        \<lparr> hidden_size = PNone, activation = PNone, weight_normalization = True,
          att_supports_masking = False \<rparr>
        (QKL ex_query ex_seq ex_len0) None = Inr out
    \<and> tf_matmul w ex_seq = Inr out
    \<and> (\<Sum>t<4. el3 w 1 0 t) = 1
    \<and> el3 w 0 0 0 = 1 / 4"
proof -
  let ?l = "\<lparr> hidden_size = PNone, activation = PNone, weight_normalization = True,
              att_supports_masking = False \<rparr>"
  let ?s = "Tensor3 2 4 1 (\<lambda>b t i. el3 ex_seq b t 0)"
  have i: "AttentionSequencePoolingLayer_init PNone PNone True False = Inr ?l"
    by (simp add: AttentionSequencePoolingLayer_init_def)
  have n: "n0 ex_len0 = d0 ex_seq" "n1 ex_len0 = 1" by (simp_all add: ex_att_dims)
  from attention_weights_masked_and_normalised[of PNone PNone True ?l ex_lau ex_query ex_seq ?s
         ex_len0 None, OF i ex_lau_score n]
  obtain w out where
    a: "AttentionSequencePoolingLayer_weights ex_lau ?l (QKL ex_query ex_seq ex_len0) None = Inr (w, ex_seq)"
    and b: "AttentionSequencePoolingLayer_call ex_lau ?l (QKL ex_query ex_seq ex_len0) None = Inr out"
    and c: "tf_matmul w ex_seq = Inr out"
    and d: "\<forall>b<d0 ex_seq.
                 (\<forall>t<d1 ex_seq. 0 < el3 w b 0 t)
               \<and> (0 < d1 ex_seq \<longrightarrow> (\<Sum>t<d1 ex_seq. el3 w b 0 t) = 1)
               \<and> (\<forall>t<d1 ex_seq. \<forall>j<d1 ex_seq. \<not> int t < el2 ex_len0 b 0 \<and> int j < el2 ex_len0 b 0 \<longrightarrow>
                     el3 w b 0 t = el3 w b 0 j * exp (- (2 ^ 32) + 1 - el3 ?s b j 0)
                   \<and> el3 w b 0 t \<le> exp (- (2 ^ 32) + 1 - el3 ?s b j 0))
               \<and> (el2 ex_len0 b 0 \<le> 0 \<longrightarrow> (\<forall>t<d1 ex_seq. el3 w b 0 t = 1 / real (d1 ex_seq)))"
    by auto
  have "(\<Sum>t<4. el3 w 1 0 t) = 1"
    using d[rule_format, of 1] by (simp add: ex_att_dims)
  moreover have "el3 w 0 0 0 = 1 / 4"
    using d[rule_format, of 0] by (simp add: ex_att_dims)
  ultimately show ?thesis using a b c by blast
qed

lemma v2_built:
  assumes "AttentionSequencePoolingLayerv2_init hs act wn st = Inr l"
  shows "v2_hidden_size l = hs" "v2_activation l = act" "v2_weight_normalization l = wn"
        "sim_type l = st"
  using assms by (auto simp: AttentionSequencePoolingLayerv2_init_def)

text \<open>
  Claim C5. First part: whenever the scoring step of \<^verbatim>\<open>AttentionSequencePoolingLayerv2\<close>
  yields a score tensor \<open>s\<close> of shape (batch, T, 1) and the embedding width is positive,
  \<^verbatim>\<open>call\<close> returns a tensor of shape (batch, 1, T): the tensor \<open>g\<close> of masked-filled
  scores divided by \<open>sqrt embedding_dim\<close> (so a masked position holds
  \<open>(-2^32+1) / sqrt embedding_dim\<close> or 0: the scaling comes after the fill), passed through
  softmax when \<^verbatim>\<open>weight_normalization\<close> is true (the scaling comes before the softmax).
  No product with the keys is taken. Second part: \<^verbatim>\<open>AttentionSequencePoolingLayer\<close>
  returns a tensor of shape (batch, 1, embedding_dim), the product of the weights with the
  keys, and its masked-filled scores \<open>f\<close> are not divided by anything.
\<close>

theorem v2_returns_scaled_scores:
  "(AttentionSequencePoolingLayerv2_init hs act wn st = Inr l2
      \<and> AttentionSequencePoolingLayerv2_score LocalActivationUnit l2 q k = Inr s
      \<and> shape3 s = [d0 k, d1 k, 1] \<and> n0 n = d0 k \<and> n1 n = 1 \<and> 0 < d2 k \<longrightarrow>
    (\<exists>g out. AttentionSequencePoolingLayerv2_call LocalActivationUnit l2 (QKL q k n) = Inr out
        \<and> shape3 out = [d0 k, 1, d1 k]
        \<and> shape3 g = [d0 k, 1, d1 k]
        \<and> (\<forall>b<d0 k. \<forall>t<d1 k. el3 g b 0 t =
              (if int t < el2 n b 0 then el3 s b t 0 else if wn then - (2 ^ 32) + 1 else 0)
                / sqrt (real (d2 k)))
        \<and> out = (if wn then softmax g else g)))
   \<and> (AttentionSequencePoolingLayer_init hs act wn False = Inr l1
      \<and> LocalActivationUnit hs act q k = Inr s
      \<and> shape3 s = [d0 k, d1 k, 1] \<and> n0 n = d0 k \<and> n1 n = 1 \<longrightarrow>
    (\<exists>f out. AttentionSequencePoolingLayer_call LocalActivationUnit l1 (QKL q k n) mk = Inr out
        \<and> shape3 out = [d0 k, 1, d2 k]
        \<and> shape3 f = [d0 k, 1, d1 k]
        \<and> (\<forall>b<d0 k. \<forall>t<d1 k. el3 f b 0 t =
              (if int t < el2 n b 0 then el3 s b t 0 else if wn then - (2 ^ 32) + 1 else 0))
        \<and> (\<forall>b<d0 k. \<forall>e<d2 k. el3 out b 0 e =
              (\<Sum>t<d1 k. el3 (if wn then softmax f else f) b 0 t * el3 k b t e))))"
proof (intro conjI impI)
  assume a: "AttentionSequencePoolingLayerv2_init hs act wn st = Inr l2
      \<and> AttentionSequencePoolingLayerv2_score LocalActivationUnit l2 q k = Inr s
      \<and> shape3 s = [d0 k, d1 k, 1] \<and> n0 n = d0 k \<and> n1 n = 1 \<and> 0 < d2 k"
  then have i: "AttentionSequencePoolingLayerv2_init hs act wn st = Inr l2"
    and sc: "AttentionSequencePoolingLayerv2_score LocalActivationUnit l2 q k = Inr s"
            "shape3 s = [d0 k, d1 k, 1]"
    and n: "n0 n = d0 k" "n1 n = 1" and E: "0 < d2 k"
    by simp_all
  note lf = v2_built[OF i]
  from v2_call_explicit[of LocalActivationUnit l2 q k s n, OF sc n E] obtain g where
    c: "AttentionSequencePoolingLayerv2_call LocalActivationUnit l2 (QKL q k n)
               = Inr (if wn then softmax g else g)"
    and gs: "shape3 g = [d0 k, 1, d1 k]"
    and ge: "\<forall>b i t. el3 g b i t =
                 (if int t < el2 n b i then el3 s b t i else if wn then - (2 ^ 32) + 1 else 0)
                 / sqrt (real (d2 k))"
    unfolding lf by blast
  define out where "out = (if wn then softmax g else g)"
  have os: "shape3 out = [d0 k, 1, d1 k]"
    using gs by (simp add: out_def softmax_entries)
  have ge0: "\<forall>b<d0 k. \<forall>t<d1 k. el3 g b 0 t =
              (if int t < el2 n b 0 then el3 s b t 0 else if wn then - (2 ^ 32) + 1 else 0)
                / sqrt (real (d2 k))"
    using ge by blast
  show "\<exists>g out. AttentionSequencePoolingLayerv2_call LocalActivationUnit l2 (QKL q k n) = Inr out
        \<and> shape3 out = [d0 k, 1, d1 k]
        \<and> shape3 g = [d0 k, 1, d1 k]
        \<and> (\<forall>b<d0 k. \<forall>t<d1 k. el3 g b 0 t =
              (if int t < el2 n b 0 then el3 s b t 0 else if wn then - (2 ^ 32) + 1 else 0)
                / sqrt (real (d2 k)))
        \<and> out = (if wn then softmax g else g)"
  proof (rule exI[of _ g], rule exI[of _ out], intro conjI)
    show "AttentionSequencePoolingLayerv2_call LocalActivationUnit l2 (QKL q k n) = Inr out"
      using c by (simp only: out_def)
    show "shape3 out = [d0 k, 1, d1 k]" by (rule os)
    show "shape3 g = [d0 k, 1, d1 k]" by (rule gs)
    show "\<forall>b<d0 k. \<forall>t<d1 k. el3 g b 0 t =
              (if int t < el2 n b 0 then el3 s b t 0 else if wn then - (2 ^ 32) + 1 else 0)
                / sqrt (real (d2 k))" by (rule ge0)
    show "out = (if wn then softmax g else g)" by (rule out_def)
  qed
next
  assume a: "AttentionSequencePoolingLayer_init hs act wn False = Inr l1
      \<and> LocalActivationUnit hs act q k = Inr s
      \<and> shape3 s = [d0 k, d1 k, 1] \<and> n0 n = d0 k \<and> n1 n = 1"
  then have i: "AttentionSequencePoolingLayer_init hs act wn False = Inr l1"
    and sc: "LocalActivationUnit hs act q k = Inr s" "shape3 s = [d0 k, d1 k, 1]"
    and n: "n0 n = d0 k" "n1 n = 1"
    by simp_all
  note lf = att_built[OF i]
  have l: "\<not> att_supports_masking l1" using lf by simp
  have sc': "LocalActivationUnit (hidden_size l1) (activation l1) q k = Inr s" using lf sc by simp
  from att_weights_explicit[of l1 LocalActivationUnit q k s n mk, OF l sc' sc(2) n] obtain f where
    w: "AttentionSequencePoolingLayer_weights LocalActivationUnit l1 (QKL q k n) mk
               = Inr (if wn then softmax f else f, k)"
    and fs: "shape3 f = [d0 k, 1, d1 k]"
    and fe: "\<forall>b i t. el3 f b i t =
                 (if int t < el2 n b i then el3 s b t i else if wn then - (2 ^ 32) + 1 else 0)"
    unfolding lf by blast
  define w where "w = (if wn then softmax f else f)"
  have ws: "shape3 w = [d0 k, 1, d1 k]"
    using fs by (simp add: w_def softmax_entries)
  from matmul_weights[OF ws] obtain out where
    m: "tf_matmul w k = Inr out" and os: "shape3 out = [d0 k, 1, d2 k]"
    and oe: "\<forall>b i e. el3 out b i e = (\<Sum>t<d1 k. el3 w b i t * el3 k b t e)"
    by blast
  have c: "AttentionSequencePoolingLayer_call LocalActivationUnit l1 (QKL q k n) mk = Inr out"
    using w m by (simp add: AttentionSequencePoolingLayer_call_def bind_def w_def)
  have fe0: "\<forall>b<d0 k. \<forall>t<d1 k. el3 f b 0 t =
              (if int t < el2 n b 0 then el3 s b t 0 else if wn then - (2 ^ 32) + 1 else 0)"
    using fe by blast
  have oe0: "\<forall>b<d0 k. \<forall>e<d2 k. el3 out b 0 e =
              (\<Sum>t<d1 k. el3 (if wn then softmax f else f) b 0 t * el3 k b t e)"
    using oe unfolding w_def by blast
  show "\<exists>f out. AttentionSequencePoolingLayer_call LocalActivationUnit l1 (QKL q k n) mk = Inr out
        \<and> shape3 out = [d0 k, 1, d2 k]
        \<and> shape3 f = [d0 k, 1, d1 k]
        \<and> (\<forall>b<d0 k. \<forall>t<d1 k. el3 f b 0 t =
              (if int t < el2 n b 0 then el3 s b t 0 else if wn then - (2 ^ 32) + 1 else 0))
        \<and> (\<forall>b<d0 k. \<forall>e<d2 k. el3 out b 0 e =
              (\<Sum>t<d1 k. el3 (if wn then softmax f else f) b 0 t * el3 k b t e))"
  proof (rule exI[of _ f], rule exI[of _ out], intro conjI)
    show "AttentionSequencePoolingLayer_call LocalActivationUnit l1 (QKL q k n) mk = Inr out"
      by (rule c)
    show "shape3 out = [d0 k, 1, d2 k]" by (rule os)
    show "shape3 f = [d0 k, 1, d1 k]" by (rule fs)
    show "\<forall>b<d0 k. \<forall>t<d1 k. el3 f b 0 t =
              (if int t < el2 n b 0 then el3 s b t 0 else if wn then - (2 ^ 32) + 1 else 0)"
      by (rule fe0)
    show "\<forall>b<d0 k. \<forall>e<d2 k. el3 out b 0 e =
              (\<Sum>t<d1 k. el3 (if wn then softmax f else f) b 0 t * el3 k b t e)"
      by (rule oe0)
  qed
qed

text \<open>
  The theorem at the first example batch with lengths 2 and 4, no weight normalisation and
  the example scoring network: the second layer returns the scores over \<open>sqrt 3\<close>, with 0
  at a masked position; the first layer returns the weighted sum of the keys.
\<close>

theorem v2_returns_scaled_scores_witness:
  "(\<exists>out. AttentionSequencePoolingLayerv2_call ex_lau
             \<lparr> v2_hidden_size = PNone, v2_activation = PNone, v2_weight_normalization = False,
               sim_type = PStr ''nn'' \<rparr>
             (QKL ex_query ex_seq ex_len) = Inr out
         \<and> shape3 out = [2, 1, 4]
         \<and> el3 out 0 0 1 = 4 / sqrt 3
         \<and> el3 out 0 0 2 = 0)
   \<and> (\<exists>out. AttentionSequencePoolingLayer_call ex_lau
             \<lparr> hidden_size = PNone, activation = PNone, weight_normalization = False,
               att_supports_masking = False \<rparr>
             (QKL ex_query ex_seq ex_len) None = Inr out
         \<and> shape3 out = [2, 1, 3]
         \<and> el3 out 0 0 0 = 17)"
proof -
  let ?l2 = "\<lparr> v2_hidden_size = PNone, v2_activation = PNone, v2_weight_normalization = False,
               sim_type = PStr ''nn'' \<rparr>"
  let ?l1 = "\<lparr> hidden_size = PNone, activation = PNone, weight_normalization = False,
               att_supports_masking = False \<rparr>"
  let ?s = "Tensor3 2 4 1 (\<lambda>b t i. el3 ex_seq b t 0)"
  note inst = v2_returns_scaled_scores[of PNone PNone False "PStr ''nn''" ?l2 ex_lau ex_query
                ex_seq ?s ex_len ?l1 None]
  have pre2: "AttentionSequencePoolingLayerv2_init PNone PNone False (PStr ''nn'') = Inr ?l2
      \<and> AttentionSequencePoolingLayerv2_score ex_lau ?l2 ex_query ex_seq = Inr ?s
      \<and> shape3 ?s = [d0 ex_seq, d1 ex_seq, 1] \<and> n0 ex_len = d0 ex_seq \<and> n1 ex_len = 1
      \<and> 0 < d2 ex_seq"
    by (simp add: AttentionSequencePoolingLayerv2_init_def AttentionSequencePoolingLayerv2_score_def
        ex_lau_score ex_att_dims shape3_def)
  have pre1: "AttentionSequencePoolingLayer_init PNone PNone False False = Inr ?l1
      \<and> ex_lau PNone PNone ex_query ex_seq = Inr ?s
      \<and> shape3 ?s = [d0 ex_seq, d1 ex_seq, 1] \<and> n0 ex_len = d0 ex_seq \<and> n1 ex_len = 1"
    by (simp add: AttentionSequencePoolingLayer_init_def ex_lau_score ex_att_dims shape3_def)
  from inst[THEN conjunct1, rule_format, OF pre2] obtain g out where
    c: "AttentionSequencePoolingLayerv2_call ex_lau ?l2 (QKL ex_query ex_seq ex_len) = Inr out"
    and os: "shape3 out = [d0 ex_seq, 1, d1 ex_seq]"
    and ge: "\<forall>b<d0 ex_seq. \<forall>t<d1 ex_seq. el3 g b 0 t =
              (if int t < el2 ex_len b 0 then el3 ?s b t 0 else if False then - (2 ^ 32) + 1 else 0)
                / sqrt (real (d2 ex_seq))"
    and og: "out = (if False then softmax g else g)"
    by blast
  have r1: "el3 out 0 0 1 = 4 / sqrt 3"
    using ge[rule_format, of 0 1] og
    by (simp add: ex_att_dims) (simp add: ex_seq_def of_rows3_def)
  have r2: "el3 out 0 0 2 = 0"
    using ge[rule_format, of 0 2] og by (simp add: ex_att_dims)
  from inst[THEN conjunct2, rule_format, OF pre1] obtain f out1 where
    c1: "AttentionSequencePoolingLayer_call ex_lau ?l1 (QKL ex_query ex_seq ex_len) None = Inr out1"
    and os1: "shape3 out1 = [d0 ex_seq, 1, d2 ex_seq]"
    and fe: "\<forall>b<d0 ex_seq. \<forall>t<d1 ex_seq. el3 f b 0 t =
              (if int t < el2 ex_len b 0 then el3 ?s b t 0 else if False then - (2 ^ 32) + 1 else 0)"
    and oe: "\<forall>b<d0 ex_seq. \<forall>e<d2 ex_seq. el3 out1 b 0 e =
              (\<Sum>t<d1 ex_seq. el3 (if False then softmax f else f) b 0 t * el3 ex_seq b t e)"
    by blast
  have fv: "el3 f 0 0 0 = 1" "el3 f 0 0 (Suc 0) = 4" "el3 f 0 0 (Suc (Suc 0)) = 0"
    "el3 f 0 0 (Suc (Suc (Suc 0))) = 0"
    using fe[rule_format, of 0 0] fe[rule_format, of 0 "Suc 0"] fe[rule_format, of 0 "Suc (Suc 0)"]
      fe[rule_format, of 0 "Suc (Suc (Suc 0))"]
    by (simp_all add: ex_att_dims) (simp_all add: ex_seq_def of_rows3_def)
  have r3: "el3 out1 0 0 0 = 17"
    using oe[rule_format, of 0 0]
    by (simp add: ex_att_dims eval_nat_numeral lessThan_Suc fv)
      (simp add: ex_seq_def of_rows3_def)
  from c os r1 r2 c1 os1 r3 show ?thesis
    by (simp add: ex_att_dims)
qed

section \<open>Cosine scoring\<close>

lemma l2_normalize_entries:
  "shape3 (l2_normalize x) = shape3 x"
  "el3 (l2_normalize x) b t e =
     el3 x b t e / sqrt (max (\<Sum>j<d2 x. el3 x b t j * el3 x b t j) (1 / 10 ^ 12))"
  by (simp_all add: l2_normalize_def shape3_def sum_list_map_upt)

lemma cos_score:
  assumes q: "shape3 q = [d0 k, 1, d2 k]"
      and E: "0 < d2 k"
      and st: "sim_type l = PStr ''cos''"
  shows "\<exists>s. AttentionSequencePoolingLayerv2_score LocalActivationUnit l q k = Inr s
           \<and> shape3 s = [d0 k, d1 k, 1]
           \<and> (\<forall>b<d0 k. \<forall>t<d1 k. el3 s b t 0 =
                 (\<Sum>e<d2 k. el3 q b 0 e * el3 k b t e)
                   / (sqrt (max (\<Sum>e<d2 k. el3 q b 0 e * el3 q b 0 e) (1 / 10 ^ 12))
                      * sqrt (max (\<Sum>e<d2 k. el3 k b t e * el3 k b t e) (1 / 10 ^ 12)))
                   / real (d2 k))"
proof -
  let ?x = "l2_normalize (repeat_elements_1 q (d1 k))"
  let ?y = "l2_normalize k"
  have dq: "d0 q = d0 k" "d1 q = 1" "d2 q = d2 k" using q by (simp_all add: shape3_def)
  have xs: "d0 ?x = d0 k" "d1 ?x = d1 k" "d2 ?x = d2 k"
    using dq by (simp_all add: l2_normalize_def repeat_elements_1_def)
  have ys: "d0 ?y = d0 k" "d1 ?y = d1 k" "d2 ?y = d2 k"
    by (simp_all add: l2_normalize_def)
  have xe: "el3 ?x b t e = el3 q b 0 e
              / sqrt (max (\<Sum>j<d2 k. el3 q b 0 j * el3 q b 0 j) (1 / 10 ^ 12))"
    if "t < d1 k" for b t e
    using that dq by (simp add: l2_normalize_entries repeat_elements_1_def)
  let ?p = "Tensor3 (d0 k) (d1 k) (d2 k)
              (\<lambda>i j m. el3 ?x (bc_ix (d0 k) i) (bc_ix (d1 k) j) (bc_ix (d2 k) m)
                       * el3 ?y (bc_ix (d0 k) i) (bc_ix (d1 k) j) (bc_ix (d2 k) m))"
  have p: "tf_multiply ?x ?y = Inr ?p"
    by (simp add: tf_multiply_def broadcast3_def xs ys bc_ok_refl bc_dim_refl)
  let ?s = "Tensor3 (d0 k) (d1 k) 1
              (\<lambda>b t i. sum_list (map (\<lambda>m. el3 ?p b t m) [0..<d2 k]) / real (d2 k))"
  have m: "mean_last_keep ?p = Inr ?s"
    using E by (simp add: mean_last_keep_def)
  have sc: "AttentionSequencePoolingLayerv2_score LocalActivationUnit l q k = Inr ?s"
    using st p m
    by (simp add: AttentionSequencePoolingLayerv2_score_def cosine_distance_def Let_def bind_def)
  have se: "el3 ?s b t 0 =
                 (\<Sum>e<d2 k. el3 q b 0 e * el3 k b t e)
                   / (sqrt (max (\<Sum>e<d2 k. el3 q b 0 e * el3 q b 0 e) (1 / 10 ^ 12))
                      * sqrt (max (\<Sum>e<d2 k. el3 k b t e * el3 k b t e) (1 / 10 ^ 12)))
                   / real (d2 k)"
    if "b < d0 k" "t < d1 k" for b t
  proof -
    let ?nq = "sqrt (max (\<Sum>e<d2 k. el3 q b 0 e * el3 q b 0 e) (1 / 10 ^ 12))"
    let ?nk = "sqrt (max (\<Sum>e<d2 k. el3 k b t e * el3 k b t e) (1 / 10 ^ 12))"
    have pe: "el3 ?p b t m = (el3 q b 0 m / ?nq) * (el3 k b t m / ?nk)" if "m < d2 k" for m
    proof -
      have "el3 ?p b t m = el3 ?x b t m * el3 ?y b t m"
        using that \<open>b < d0 k\<close> \<open>t < d1 k\<close> by (simp add: bc_ix_in)
      also have "el3 ?x b t m = el3 q b 0 m / ?nq"
        by (rule xe[OF \<open>t < d1 k\<close>])
      also have "el3 ?y b t m = el3 k b t m / ?nk"
        by (rule l2_normalize_entries(2))
      finally show ?thesis .
    qed
    have "(\<Sum>m<d2 k. el3 ?p b t m) = (\<Sum>m<d2 k. (el3 q b 0 m / ?nq) * (el3 k b t m / ?nk))"
      using pe by (intro sum.cong) simp_all
    also have "\<dots> = (\<Sum>m<d2 k. (el3 q b 0 m * el3 k b t m) / (?nq * ?nk))"
      by (intro sum.cong) simp_all
    also have "\<dots> = (\<Sum>m<d2 k. el3 q b 0 m * el3 k b t m) / (?nq * ?nk)"
      by (rule sum_divide_distrib[symmetric])
    finally show ?thesis
      by (simp add: sum_list_map_upt)
  qed
  have "shape3 ?s = [d0 k, d1 k, 1]" by (simp add: shape3_def)
  with sc se show ?thesis by blast
qed

lemma ex_unit_dims:
  "d0 ex_unit_keys = 1" "d1 ex_unit_keys = 2" "d2 ex_unit_keys = 2"
  "shape3 ex_unit_query = [d0 ex_unit_keys, 1, d2 ex_unit_keys]"
  "el3 ex_unit_query 0 0 0 = 1" "el3 ex_unit_query 0 0 (Suc 0) = 0"
  "el3 ex_unit_keys 0 0 0 = 1" "el3 ex_unit_keys 0 0 (Suc 0) = 0"
  "el3 ex_unit_keys 0 (Suc 0) 0 = 0" "el3 ex_unit_keys 0 (Suc 0) (Suc 0) = 3"
  by (simp_all add: ex_unit_query_def ex_unit_keys_def of_rows3_def shape3_def)

text \<open>
  Claim C3, as amended. For \<^verbatim>\<open>AttentionSequencePoolingLayerv2\<close> with \<^verbatim>\<open>sim_type='cos'\<close>, a
  query of shape (batch, 1, embedding_dim) and keys of shape (batch, T, embedding_dim) with
  positive embedding_dim, the score at position \<open>t\<close> of row \<open>b\<close> is the mean over the
  embedding axis of the elementwise product of the L2-normalised query and key vectors,
  where normalising divides a vector by the square root of the larger of its sum of squares
  and \<open>1e-12\<close>. For a key vector identical to the query vector with sum of squares at
  least \<open>1e-12\<close> the score is \<open>1 / embedding_dim\<close> (the mean divides the cosine by the
  width; it is 1 only for width 1), and for a key vector orthogonal to the query vector the
  score is 0.
\<close>

theorem cosine_score_is_mean_of_normalised_product:
  assumes init: "AttentionSequencePoolingLayerv2_init hs act wn (PStr ''cos'') = Inr l"
      and q: "shape3 q = [d0 k, 1, d2 k]"
      and E: "0 < d2 k"
  shows "\<exists>s. AttentionSequencePoolingLayerv2_score LocalActivationUnit l q k = Inr s
           \<and> shape3 s = [d0 k, d1 k, 1]
           \<and> (\<forall>b<d0 k. \<forall>t<d1 k.
                 el3 s b t 0 =
                   (\<Sum>e<d2 k.
                      (el3 q b 0 e / sqrt (max (\<Sum>j<d2 k. el3 q b 0 j * el3 q b 0 j) (1 / 10 ^ 12)))
                    * (el3 k b t e / sqrt (max (\<Sum>j<d2 k. el3 k b t j * el3 k b t j) (1 / 10 ^ 12))))
                   / real (d2 k)
               \<and> ((\<forall>e<d2 k. el3 k b t e = el3 q b 0 e)
                    \<and> 1 / 10 ^ 12 \<le> (\<Sum>e<d2 k. el3 q b 0 e * el3 q b 0 e) \<longrightarrow>
                      el3 s b t 0 = 1 / real (d2 k))
               \<and> ((\<Sum>e<d2 k. el3 q b 0 e * el3 k b t e) = 0 \<longrightarrow> el3 s b t 0 = 0))"
proof -
  have st: "sim_type l = PStr ''cos''"
    using init by (auto simp: AttentionSequencePoolingLayerv2_init_def)
  from cos_score[OF q E st, of LocalActivationUnit] obtain s where
    sc: "AttentionSequencePoolingLayerv2_score LocalActivationUnit l q k = Inr s"
    and ss: "shape3 s = [d0 k, d1 k, 1]"
    and se: "\<forall>b<d0 k. \<forall>t<d1 k. el3 s b t 0 =
                 (\<Sum>e<d2 k. el3 q b 0 e * el3 k b t e)
                   / (sqrt (max (\<Sum>e<d2 k. el3 q b 0 e * el3 q b 0 e) (1 / 10 ^ 12))
                      * sqrt (max (\<Sum>e<d2 k. el3 k b t e * el3 k b t e) (1 / 10 ^ 12)))
                   / real (d2 k)"
    by blast
  have main: "el3 s b t 0 =
                   (\<Sum>e<d2 k.
                      (el3 q b 0 e / sqrt (max (\<Sum>j<d2 k. el3 q b 0 j * el3 q b 0 j) (1 / 10 ^ 12)))
                    * (el3 k b t e / sqrt (max (\<Sum>j<d2 k. el3 k b t j * el3 k b t j) (1 / 10 ^ 12))))
                   / real (d2 k)"
    if "b < d0 k" "t < d1 k" for b t
  proof -
    let ?nq = "sqrt (max (\<Sum>j<d2 k. el3 q b 0 j * el3 q b 0 j) (1 / 10 ^ 12))"
    let ?nk = "sqrt (max (\<Sum>j<d2 k. el3 k b t j * el3 k b t j) (1 / 10 ^ 12))"
    have "(\<Sum>e<d2 k. (el3 q b 0 e / ?nq) * (el3 k b t e / ?nk))
            = (\<Sum>e<d2 k. (el3 q b 0 e * el3 k b t e) / (?nq * ?nk))"
      by (intro sum.cong) simp_all
    also have "\<dots> = (\<Sum>e<d2 k. el3 q b 0 e * el3 k b t e) / (?nq * ?nk)"
      by (rule sum_divide_distrib[symmetric])
    finally show ?thesis using se that by simp
  qed
  have same: "el3 s b t 0 = 1 / real (d2 k)"
    if "b < d0 k" "t < d1 k" "\<forall>e<d2 k. el3 k b t e = el3 q b 0 e"
       "1 / 10 ^ 12 \<le> (\<Sum>e<d2 k. el3 q b 0 e * el3 q b 0 e)" for b t
  proof -
    let ?S = "\<Sum>e<d2 k. el3 q b 0 e * el3 q b 0 e"
    have k1: "(\<Sum>e<d2 k. el3 k b t e * el3 k b t e) = ?S"
      using that(3) by (intro sum.cong) simp_all
    have k2: "(\<Sum>e<d2 k. el3 q b 0 e * el3 k b t e) = ?S"
      using that(3) by (intro sum.cong) simp_all
    have mx: "max ?S (1 / 10 ^ 12) = ?S" using that(4) by (simp add: max_def)
    have Spos: "0 < ?S" using that(4) by (rule less_le_trans[rotated]) simp
    have "el3 s b t 0 = ?S / (sqrt ?S * sqrt ?S) / real (d2 k)"
      using se that(1,2) by (simp only: k1 k2 mx)
    also have "sqrt ?S * sqrt ?S = ?S" using Spos by simp
    also have "?S / ?S = 1" using Spos by simp
    finally show ?thesis .
  qed
  have orth: "el3 s b t 0 = 0"
    if "b < d0 k" "t < d1 k" "(\<Sum>e<d2 k. el3 q b 0 e * el3 k b t e) = 0" for b t
    using se that by simp
  show ?thesis
  proof (rule exI[of _ s], intro conjI allI impI)
    show "AttentionSequencePoolingLayerv2_score LocalActivationUnit l q k = Inr s" by (rule sc)
    show "shape3 s = [d0 k, d1 k, 1]" by (rule ss)
  next
    fix b t assume "b < d0 k" "t < d1 k"
    then show "el3 s b t 0 =
                   (\<Sum>e<d2 k.
                      (el3 q b 0 e / sqrt (max (\<Sum>j<d2 k. el3 q b 0 j * el3 q b 0 j) (1 / 10 ^ 12)))
                    * (el3 k b t e / sqrt (max (\<Sum>j<d2 k. el3 k b t j * el3 k b t j) (1 / 10 ^ 12))))
                   / real (d2 k)"
      by (rule main)
  next
    fix b t assume "b < d0 k" "t < d1 k"
      "(\<forall>e<d2 k. el3 k b t e = el3 q b 0 e)
                    \<and> 1 / 10 ^ 12 \<le> (\<Sum>e<d2 k. el3 q b 0 e * el3 q b 0 e)"
    then show "el3 s b t 0 = 1 / real (d2 k)"
      using same[of b t] by blast
  next
    fix b t assume "b < d0 k" "t < d1 k" "(\<Sum>e<d2 k. el3 q b 0 e * el3 k b t e) = 0"
    then show "el3 s b t 0 = 0" by (rule orth)
  qed
qed

text \<open>
  Claim C3 as stated fails for every embedding width above 1: with the query \<open>(1, 0)\<close> and
  the identical key \<open>(1, 0)\<close> the score is \<open>1/2\<close>, at distance \<open>1/2\<close> from 1.
\<close>

theorem cosine_score_identical_counterexample:
  "(case AttentionSequencePoolingLayerv2_score ex_lau
           \<lparr> v2_hidden_size = PNone, v2_activation = PNone, v2_weight_normalization = True,
             sim_type = PStr ''cos'' \<rparr>
           ex_unit_query ex_unit_keys of
      Inl e \<Rightarrow> False
    | Inr s \<Rightarrow>
        el3 ex_unit_keys 0 0 0 = el3 ex_unit_query 0 0 0
      \<and> el3 ex_unit_keys 0 0 1 = el3 ex_unit_query 0 0 1
      \<and> el3 ex_unit_query 0 0 0 = 1
      \<and> el3 s 0 0 0 = 1 / 2
      \<and> \<bar>el3 s 0 0 0 - 1\<bar> = 1 / 2)"
proof -
  let ?l = "\<lparr> v2_hidden_size = PNone, v2_activation = PNone, v2_weight_normalization = True,
              sim_type = PStr ''cos'' \<rparr>"
  have st: "sim_type ?l = PStr ''cos''" by simp
  have E: "0 < d2 ex_unit_keys" by (simp add: ex_unit_dims)
  from cos_score[OF ex_unit_dims(4) E st, of ex_lau] obtain s where
    sc: "AttentionSequencePoolingLayerv2_score ex_lau ?l ex_unit_query ex_unit_keys = Inr s"
    and se: "\<forall>b<d0 ex_unit_keys. \<forall>t<d1 ex_unit_keys. el3 s b t 0 =
                 (\<Sum>e<d2 ex_unit_keys. el3 ex_unit_query b 0 e * el3 ex_unit_keys b t e)
                   / (sqrt (max (\<Sum>e<d2 ex_unit_keys. el3 ex_unit_query b 0 e * el3 ex_unit_query b 0 e) (1 / 10 ^ 12))
                      * sqrt (max (\<Sum>e<d2 ex_unit_keys. el3 ex_unit_keys b t e * el3 ex_unit_keys b t e) (1 / 10 ^ 12)))
                   / real (d2 ex_unit_keys)"
    by blast
  have v: "el3 s 0 0 0 = 1 / 2"
    using se[rule_format, of 0 0]
    by (simp add: ex_unit_dims eval_nat_numeral lessThan_Suc)
  show ?thesis
    unfolding sc using v by (simp add: ex_unit_dims)
qed

text \<open>
  The amended theorem at the example query and keys: score \<open>1/2\<close> for the identical key,
  0 for the orthogonal one.
\<close>

theorem cosine_score_is_mean_of_normalised_product_witness:
  "\<exists>s. AttentionSequencePoolingLayerv2_score ex_lau
          \<lparr> v2_hidden_size = PNone, v2_activation = PNone, v2_weight_normalization = True,
            sim_type = PStr ''cos'' \<rparr>
          ex_unit_query ex_unit_keys = Inr s
      \<and> shape3 s = [1, 2, 1]
      \<and> el3 s 0 0 0 = 1 / 2
      \<and> el3 s 0 1 0 = 0"
proof -
  let ?l = "\<lparr> v2_hidden_size = PNone, v2_activation = PNone, v2_weight_normalization = True,
              sim_type = PStr ''cos'' \<rparr>"
  have i: "AttentionSequencePoolingLayerv2_init PNone PNone True (PStr ''cos'') = Inr ?l"
    by (simp add: AttentionSequencePoolingLayerv2_init_def)
  have E: "0 < d2 ex_unit_keys" by (simp add: ex_unit_dims)
  from cosine_score_is_mean_of_normalised_product[OF i ex_unit_dims(4) E, of ex_lau] obtain s where
    sc: "AttentionSequencePoolingLayerv2_score ex_lau ?l ex_unit_query ex_unit_keys = Inr s"
    and ss: "shape3 s = [d0 ex_unit_keys, d1 ex_unit_keys, 1]"
    and same: "\<forall>b<d0 ex_unit_keys. \<forall>t<d1 ex_unit_keys.
                 (\<forall>e<d2 ex_unit_keys. el3 ex_unit_keys b t e = el3 ex_unit_query b 0 e)
                    \<and> 1 / 10 ^ 12 \<le> (\<Sum>e<d2 ex_unit_keys. el3 ex_unit_query b 0 e * el3 ex_unit_query b 0 e) \<longrightarrow>
                      el3 s b t 0 = 1 / real (d2 ex_unit_keys)"
    and orth: "\<forall>b<d0 ex_unit_keys. \<forall>t<d1 ex_unit_keys.
                 (\<Sum>e<d2 ex_unit_keys. el3 ex_unit_query b 0 e * el3 ex_unit_keys b t e) = 0 \<longrightarrow>
                      el3 s b t 0 = 0"
    by blast
  have "\<forall>e<2. el3 ex_unit_keys 0 0 e = el3 ex_unit_query 0 0 e"
    by (auto simp: less_Suc_eq eval_nat_numeral ex_unit_dims)
  then have r0: "el3 s 0 0 0 = 1 / 2"
    using same[rule_format, of 0 0]
    by (simp add: ex_unit_dims eval_nat_numeral lessThan_Suc)
  have r1: "el3 s 0 1 0 = 0"
    using orth[rule_format, of 0 1]
    by (simp add: ex_unit_dims eval_nat_numeral lessThan_Suc)
  from sc ss r0 r1 show ?thesis by (simp add: ex_unit_dims)
qed

section \<open>Bidirectional encoder\<close>














text \<open>
  \<^verbatim>\<open>compute_output_shape\<close> declares the output width from the last dimension of the input
  shape, not from \<^verbatim>\<open>units\<close>; the two agree when the input width is \<^verbatim>\<open>units\<close>.
\<close>

lemma BiLSTM_compute_output_shape_of_input:
  "merge_mode l = PStr ''concat'' \<Longrightarrow>
     BiLSTM_compute_output_shape l [B, T, D] = Inr (Shape [B, T, D * 2])"
  "merge_mode l = PNone \<Longrightarrow>
     BiLSTM_compute_output_shape l [B, T, D] = Inr (Shapes [[B, T, D], [B, T, D]])"
  "merge_mode l \<noteq> PNone \<Longrightarrow> merge_mode l \<noteq> PStr ''concat'' \<Longrightarrow>
     BiLSTM_compute_output_shape l [B, T, D] = Inr (Shape [B, T, D])"
  by (simp_all add: BiLSTM_compute_output_shape_def)

end
